theory Spec2Isabelle
  imports Main "HOL-Library.Word"
begin

section \<open>The channel client of the Tegra host driver (bus\_client.c)\<close>

text \<open>
  The theory embeds the command-submission path of
  \<^verbatim>\<open>drivers/video/tegra/host/bus_client.c\<close>: \<^verbatim>\<open>set_submit\<close>, \<^verbatim>\<open>reset_submit\<close>,
  the streaming \<^verbatim>\<open>nvhost_channelwrite\<close>, \<^verbatim>\<open>nvhost_ioctl_channel_flush\<close> and the
  \<^verbatim>\<open>SUBMIT_EXT\<close> and \<^verbatim>\<open>SET_NVMAP_FD\<close> cases of \<^verbatim>\<open>nvhost_channelctl\<close>.

  The driver is built for 32-bit ARM (the \<^verbatim>\<open>mach/\<close> headers), so \<^verbatim>\<open>int\<close>, \<^verbatim>\<open>u32\<close> and
  \<^verbatim>\<open>size_t\<close> are all 32 bits wide. Every machine integer is a \<open>32 word\<close>: arithmetic
  wraps, a C \<^verbatim>\<open>int\<close> is read through \<open>sint\<close>, an unsigned value through \<open>unat\<close>.
  Tracing and logging calls (\<^verbatim>\<open>trace_*\<close>, \<^verbatim>\<open>dev_err\<close>) have no effect on the state
  and are left out.
\<close>

subsection \<open>Machine types and error numbers\<close>

type_synonym u32 = "32 word"
type_synonym size_t = "32 word"
type_synonym byte = "8 word"

text \<open>The address of a job object in kernel memory.\<close>
type_synonym addr = nat

text \<open>The error numbers the file returns (negated), with the kernel's values.\<close>

definition EIO :: int where "EIO = 5"
definition ENOMEM :: int where "ENOMEM = 12"
definition EFAULT :: int where "EFAULT = 14"
definition EINVAL :: int where "EINVAL = 22"

text \<open>
  Modelled from the spec: the version numbers come from \<^verbatim>\<open>linux/nvhost_ioctl.h\<close>, which is
  not part of the source file; the spec names them v0 and v2.
\<close>

definition NVHOST_SUBMIT_VERSION_V0 :: u32 where "NVHOST_SUBMIT_VERSION_V0 = 0"
definition NVHOST_SUBMIT_VERSION_V2 :: u32 where "NVHOST_SUBMIT_VERSION_V2 = 2"

text \<open>
  \<^verbatim>\<open>min_t(int, x, y)\<close>: both operands are converted to \<^verbatim>\<open>int\<close> and compared as signed
  values.
\<close>

definition min_t_int :: "u32 \<Rightarrow> u32 \<Rightarrow> u32" where
  "min_t_int x y = (if sint x < sint y then x else y)"

subsection \<open>Structures\<close>

text \<open>
  \<^verbatim>\<open>struct nvhost_submit_hdr_ext\<close>, with the fields the source file reads and writes.
\<close>

record nvhost_submit_hdr_ext =
  syncpt_id :: u32
  syncpt_incrs :: u32
  num_cmdbufs :: u32
  num_relocs :: u32
  submit_version :: u32
  num_waitchks :: u32
  waitchk_mask :: u32

text \<open>
  One element of \<^verbatim>\<open>job->pinarray\<close>: the bytes of the relocation record copied over the
  start of the element, and the bytes of its \<^verbatim>\<open>reloc_shift\<close> field.
\<close>

record pinarray_elem =
  reloc :: "byte list"
  reloc_shift :: "byte list"

text \<open>
  \<^verbatim>\<open>struct nvhost_job\<close>, with the fields the source file uses. The arrays \<^verbatim>\<open>pinarray\<close> and
  \<^verbatim>\<open>waitchk\<close> are the memory their pointers designate, indexed by a C \<^verbatim>\<open>int\<close>: the source
  checks no index against a capacity. \<^verbatim>\<open>gathers\<close> holds the command-buffer records in the
  order \<^verbatim>\<open>nvhost_job_add_gather\<close> received them.
\<close>

record nvhost_job =
  gathers :: "byte list list"
  pinarray :: "int \<Rightarrow> pinarray_elem"
  num_pins :: u32
  waitchk :: "int \<Rightarrow> byte list"
  num_waitchk :: u32
  job_timeout :: u32
  null_kickoff :: int
  syncpt_end :: u32

type_synonym heap = "addr \<Rightarrow> nvhost_job"

text \<open>\<^verbatim>\<open>struct nvhost_channel_userctx\<close>; \<^verbatim>\<open>job\<close> and \<^verbatim>\<open>nvmap\<close> are pointers, \<open>None\<close> is NULL.\<close>

record nvhost_channel_userctx =
  hwctx :: "nat option"
  hdr :: nvhost_submit_hdr_ext
  num_relocshifts :: u32
  job :: "addr option"
  nvmap :: "nat option"
  timeout :: u32
  priority :: u32
  clientid :: u32

text \<open>The calls made to the pinning and device-submission collaborators, in order.\<close>

datatype collab_call = JOB_PIN | CHANNEL_SUBMIT | JOB_UNPIN

text \<open>
  What the source file takes from outside: the sizes of the wire records and the maximum
  submit version (declared in \<^verbatim>\<open>linux/nvhost_ioctl.h\<close>), the decoding of a legacy header
  into the four fields \<^verbatim>\<open>syncpt_id\<close>, \<^verbatim>\<open>syncpt_incrs\<close>, \<^verbatim>\<open>num_cmdbufs\<close>, \<^verbatim>\<open>num_relocs\<close> that
  \<^verbatim>\<open>copy_from_user\<close> overwrites at the start of the stored header, the job allocator, the
  pinning and submission collaborators, the nvmap file lookup, and the debug hooks that
  \<^verbatim>\<open>nvhost_ioctl_channel_flush\<close> compares with the calling process.
\<close>

record env =
  sizeof_submit_hdr :: size_t
  sizeof_cmdbuf :: size_t
  sizeof_reloc :: size_t
  sizeof_waitchk :: size_t
  sizeof_reloc_shift :: size_t
  decode_submit_hdr :: "byte list \<Rightarrow> u32 \<times> u32 \<times> u32 \<times> u32"
  NVHOST_SUBMIT_VERSION_MAX_SUPPORTED :: u32
  nvhost_job_realloc ::
    "heap \<Rightarrow> addr option \<Rightarrow> nat option \<Rightarrow> nvhost_submit_hdr_ext \<Rightarrow> nat \<Rightarrow> u32 \<Rightarrow> u32
      \<Rightarrow> addr option \<times> heap"
  nvhost_job_pin :: "nvhost_job \<Rightarrow> int \<times> nvhost_job"
  nvhost_channel_submit :: "nvhost_job \<Rightarrow> int \<times> nvhost_job"
  nvhost_job_unpin :: "nvhost_job \<Rightarrow> nvhost_job"
  nvmap_client_get_file :: "int \<Rightarrow> int + nat"
  nvhost_debug_null_kickoff_pid :: int
  nvhost_debug_force_timeout_pid :: int
  nvhost_debug_force_timeout_channel :: int
  nvhost_debug_force_timeout_val :: u32
  current_tgid :: int
  chid :: int

subsection \<open>User memory\<close>

text \<open>
  The caller's memory from the address \<^verbatim>\<open>buf\<close> of the write call onwards: one entry per
  byte, \<open>None\<close> for a byte that cannot be read, and nothing readable past the end of the
  list. \<^verbatim>\<open>copy_from_user\<close> yields the bytes, or \<open>None\<close> when it returns nonzero; what a
  failing copy has already written to its destination is not modelled, the destination
  keeps its old value.
\<close>

type_synonym umem = "byte option list"

definition copy_from_user :: "umem \<Rightarrow> size_t \<Rightarrow> size_t \<Rightarrow> byte list option" where
  "copy_from_user um buf n =
     (if unat buf + unat n \<le> length um then those (take (unat n) (drop (unat buf) um))
      else None)"

subsection \<open>set\_submit and reset\_submit\<close>

definition set_submit ::
  "env \<Rightarrow> nvhost_channel_userctx \<Rightarrow> heap \<Rightarrow> int \<times> nvhost_channel_userctx \<times> heap" where
  "set_submit e ctx h =
     (if num_cmdbufs (hdr ctx) = 0 then (- EIO, ctx, h)
      else case nvmap ctx of
        None \<Rightarrow> (- EFAULT, ctx, h)
      | Some nm \<Rightarrow>
         (case nvhost_job_realloc e h (job ctx) (hwctx ctx) (hdr ctx) nm (priority ctx)
                 (clientid ctx) of
            (None, h') \<Rightarrow> (- ENOMEM, ctx\<lparr>job := None\<rparr>, h')
          | (Some a, h') \<Rightarrow>
              (0,
               ctx\<lparr>job := Some a,
                   num_relocshifts :=
                     (if NVHOST_SUBMIT_VERSION_V2 \<le> submit_version (hdr ctx)
                      then num_relocs (hdr ctx) else num_relocshifts ctx)\<rparr>,
               h'(a := (h' a)\<lparr>job_timeout := timeout ctx\<rparr>))))"

definition reset_submit :: "nvhost_channel_userctx \<Rightarrow> nvhost_channel_userctx" where
  "reset_submit ctx =
     ctx\<lparr>hdr := (hdr ctx)\<lparr>num_cmdbufs := 0, num_relocs := 0, num_waitchks := 0\<rparr>,
         num_relocshifts := 0\<rparr>"

subsection \<open>nvhost\_channelwrite\<close>

text \<open>
  One iteration of the \<^verbatim>\<open>while (remaining)\<close> loop either leaves the loop (\<open>Break\<close>, with
  the value of \<^verbatim>\<open>err\<close>) or goes on after consuming \<open>consumed\<close> bytes (\<open>Next\<close>).
\<close>

datatype step =
  Break int nvhost_channel_userctx heap
| Next nvhost_channel_userctx heap size_t

text \<open>
  Modelled from the spec: \<^verbatim>\<open>nvhost_job_add_gather\<close> is defined in \<^verbatim>\<open>nvhost_job.c\<close>, which is
  not part of the source file. The spec's append-gather always succeeds and appends one
  entry {buffer reference, word count, byte offset} to the ordered sequence of gathers;
  the entry is kept as the bytes of the command-buffer record, whose three fields
  \<^verbatim>\<open>mem\<close>, \<^verbatim>\<open>words\<close> and \<^verbatim>\<open>offset\<close> the loop passes on.
\<close>

definition nvhost_job_add_gather :: "nvhost_job \<Rightarrow> byte list \<Rightarrow> nvhost_job" where
  "nvhost_job_add_gather j cmdbuf = j\<lparr>gathers := gathers j @ [cmdbuf]\<rparr>"

text \<open>
  The branches of the loop body. \<open>a\<close> is the local pointer \<^verbatim>\<open>job\<close>, read from
  \<^verbatim>\<open>priv->job\<close> once, before the loop; \<^verbatim>\<open>set_submit\<close> may replace \<^verbatim>\<open>priv->job\<close> but never
  the local pointer.
\<close>

definition write_hdr ::
  "env \<Rightarrow> umem \<Rightarrow> nvhost_channel_userctx \<Rightarrow> heap \<Rightarrow> size_t \<Rightarrow> size_t \<Rightarrow> step" where
  "write_hdr e um priv h buf remaining =
     (let consumed = sizeof_submit_hdr e in
      if remaining < consumed then Break 0 priv h
      else case copy_from_user um buf consumed of
        None \<Rightarrow> Break (- EFAULT) priv h
      | Some bs \<Rightarrow>
         (case decode_submit_hdr e bs of (sid, sincrs, ncmd, nrel) \<Rightarrow>
            (case set_submit e
                    (priv\<lparr>hdr := (hdr priv)\<lparr>syncpt_id := sid, syncpt_incrs := sincrs,
                              num_cmdbufs := ncmd, num_relocs := nrel,
                              submit_version := NVHOST_SUBMIT_VERSION_V0\<rparr>\<rparr>) h of
               (err, priv', h') \<Rightarrow>
                 if err \<noteq> 0 then Break err priv' h' else Next priv' h' consumed)))"

definition write_cmdbuf ::
  "env \<Rightarrow> umem \<Rightarrow> addr \<Rightarrow> nvhost_channel_userctx \<Rightarrow> heap \<Rightarrow> size_t \<Rightarrow> size_t \<Rightarrow> step" where
  "write_cmdbuf e um a priv h buf remaining =
     (let consumed = sizeof_cmdbuf e in
      if remaining < consumed then Break 0 priv h
      else case copy_from_user um buf consumed of
        None \<Rightarrow> Break (- EFAULT) priv h
      | Some cmdbuf \<Rightarrow>
          Next (priv\<lparr>hdr := (hdr priv)\<lparr>num_cmdbufs := num_cmdbufs (hdr priv) - 1\<rparr>\<rparr>)
               (h(a := nvhost_job_add_gather (h a) cmdbuf))
               consumed)"

definition write_reloc ::
  "env \<Rightarrow> umem \<Rightarrow> addr \<Rightarrow> nvhost_channel_userctx \<Rightarrow> heap \<Rightarrow> size_t \<Rightarrow> size_t \<Rightarrow> step" where
  "write_reloc e um a priv h buf remaining =
     (let consumed = sizeof_reloc e in
      if remaining < consumed then Break 0 priv h
      else case copy_from_user um buf consumed of
        None \<Rightarrow> Break (- EFAULT) priv h
      | Some bs \<Rightarrow>
          (let i = sint (num_pins (h a)) in
           Next (priv\<lparr>hdr := (hdr priv)\<lparr>num_relocs := num_relocs (hdr priv) - 1\<rparr>\<rparr>)
                (h(a := (h a)\<lparr>pinarray := (pinarray (h a))(i := (pinarray (h a) i)\<lparr>reloc := bs\<rparr>),
                               num_pins := num_pins (h a) + 1\<rparr>))
                consumed))"

text \<open>
  \<^verbatim>\<open>copy_from_user(&job->waitchk[job->num_waitchk], buf, consumed)\<close> fills the array from
  element \<open>idx\<close> on with the copied bytes, \<open>sz\<close> bytes an element.
\<close>

definition store_records ::
  "nat \<Rightarrow> (int \<Rightarrow> byte list) \<Rightarrow> int \<Rightarrow> byte list \<Rightarrow> (int \<Rightarrow> byte list)" where
  "store_records sz wk idx bs =
     (\<lambda>i. if idx \<le> i \<and> nat (i - idx) * sz < length bs
          then take sz (drop (nat (i - idx) * sz) bs) else wk i)"

definition write_waitchks ::
  "env \<Rightarrow> umem \<Rightarrow> addr \<Rightarrow> nvhost_channel_userctx \<Rightarrow> heap \<Rightarrow> size_t \<Rightarrow> size_t \<Rightarrow> step" where
  "write_waitchks e um a priv h buf remaining =
     (let numwaitchks = remaining div sizeof_waitchk e in
      if numwaitchks = 0 then Break 0 priv h
      else
        (let numwaitchks = min_t_int numwaitchks (num_waitchks (hdr priv));
             consumed = numwaitchks * sizeof_waitchk e in
         case copy_from_user um buf consumed of
           None \<Rightarrow> Break (- EFAULT) priv h
         | Some bs \<Rightarrow>
             Next (priv\<lparr>hdr := (hdr priv)\<lparr>num_waitchks := num_waitchks (hdr priv) - numwaitchks\<rparr>\<rparr>)
                  (h(a := (h a)\<lparr>waitchk := store_records (unat (sizeof_waitchk e)) (waitchk (h a))
                                               (sint (num_waitchk (h a))) bs,
                                 num_waitchk := num_waitchk (h a) + numwaitchks\<rparr>))
                  consumed))"

definition write_relocshift ::
  "env \<Rightarrow> umem \<Rightarrow> addr \<Rightarrow> nvhost_channel_userctx \<Rightarrow> heap \<Rightarrow> size_t \<Rightarrow> size_t \<Rightarrow> step" where
  "write_relocshift e um a priv h buf remaining =
     (let next_shift = sint (num_pins (h a) - num_relocshifts priv);
          consumed = sizeof_reloc_shift e in
      if remaining < consumed then Break 0 priv h
      else case copy_from_user um buf consumed of
        None \<Rightarrow> Break (- EFAULT) priv h
      | Some bs \<Rightarrow>
          Next (priv\<lparr>num_relocshifts := num_relocshifts priv - 1\<rparr>)
               (h(a := (h a)\<lparr>pinarray :=
                    (pinarray (h a))(next_shift := (pinarray (h a) next_shift)\<lparr>reloc_shift := bs\<rparr>)\<rparr>))
               consumed)"

text \<open>The loop body: the chain of conditions, in the order of the source.\<close>

definition write_step ::
  "env \<Rightarrow> umem \<Rightarrow> addr \<Rightarrow> nvhost_channel_userctx \<Rightarrow> heap \<Rightarrow> size_t \<Rightarrow> size_t \<Rightarrow> step" where
  "write_step e um a priv h buf remaining =
     (if num_relocs (hdr priv) = 0 \<and> num_relocshifts priv = 0 \<and>
         num_cmdbufs (hdr priv) = 0 \<and> num_waitchks (hdr priv) = 0
      then write_hdr e um priv h buf remaining
      else if num_cmdbufs (hdr priv) \<noteq> 0 then write_cmdbuf e um a priv h buf remaining
      else if num_relocs (hdr priv) \<noteq> 0 then write_reloc e um a priv h buf remaining
      else if num_waitchks (hdr priv) \<noteq> 0 then write_waitchks e um a priv h buf remaining
      else if num_relocshifts priv \<noteq> 0 then write_relocshift e um a priv h buf remaining
      else Break (- EFAULT) priv h)"

text \<open>
  The loop. It returns \<^verbatim>\<open>err\<close>, the state and \<^verbatim>\<open>remaining\<close>; \<open>None\<close> stands for a loop
  that never ends.
\<close>

partial_function (option) write_loop ::
  "env \<Rightarrow> umem \<Rightarrow> addr \<Rightarrow> nvhost_channel_userctx \<Rightarrow> heap \<Rightarrow> size_t \<Rightarrow> size_t
    \<Rightarrow> (int \<times> nvhost_channel_userctx \<times> heap \<times> size_t) option" where
  "write_loop e um a priv h buf remaining =
     (if remaining = 0 then Some (0, priv, h, remaining)
      else case write_step e um a priv h buf remaining of
        Break err priv' h' \<Rightarrow> Some (err, priv', h', remaining)
      | Next priv' h' consumed \<Rightarrow>
          write_loop e um a priv' h' (buf + consumed) (remaining - consumed))"

text \<open>
  The write call on \<open>count\<close> bytes at \<^verbatim>\<open>buf\<close> (offset 0 of the user memory): the returned
  \<^verbatim>\<open>ssize_t\<close> and the state afterwards.
\<close>

definition nvhost_channelwrite ::
  "env \<Rightarrow> umem \<Rightarrow> nvhost_channel_userctx \<Rightarrow> heap \<Rightarrow> size_t
    \<Rightarrow> (int \<times> nvhost_channel_userctx \<times> heap) option" where
  "nvhost_channelwrite e um priv h count =
     (case job priv of
        None \<Rightarrow> Some (- EIO, priv, h)
      | Some a \<Rightarrow>
         (case write_loop e um a priv h 0 count of
            None \<Rightarrow> None
          | Some (err, priv', h', remaining) \<Rightarrow>
              if err < 0 then Some (err, reset_submit priv', h')
              else Some (sint (count - remaining), priv', h')))"

subsection \<open>nvhost\_ioctl\_channel\_flush\<close>

text \<open>
  The result is the returned \<^verbatim>\<open>err\<close>, \<^verbatim>\<open>args->value\<close>, the state afterwards and the
  collaborator calls made.
\<close>

definition nvhost_ioctl_channel_flush ::
  "env \<Rightarrow> nvhost_channel_userctx \<Rightarrow> heap \<Rightarrow> u32 \<Rightarrow> int
    \<Rightarrow> int \<times> u32 \<times> nvhost_channel_userctx \<times> heap \<times> collab_call list" where
  "nvhost_ioctl_channel_flush e ctx h args_value null_kickoff_arg =
     (case job ctx of
        None \<Rightarrow> (- EFAULT, args_value, reset_submit ctx, h, [])
      | Some a \<Rightarrow>
          if num_relocs (hdr ctx) \<noteq> 0 \<or> num_cmdbufs (hdr ctx) \<noteq> 0 \<or> num_waitchks (hdr ctx) \<noteq> 0
          then (- EFAULT, args_value, reset_submit ctx, h, [])
          else
            (case nvhost_job_pin e (h a) of (err, j1) \<Rightarrow>
               if err \<noteq> 0 then (err, args_value, ctx, h(a := j1), [JOB_PIN])
               else
                 (let nk =
                        (if nvhost_debug_null_kickoff_pid e = current_tgid e then 1
                         else null_kickoff_arg);
                      j2 = j1\<lparr>null_kickoff := nk\<rparr>;
                      ctx' =
                        (if nvhost_debug_force_timeout_pid e = current_tgid e \<and>
                            nvhost_debug_force_timeout_channel e = chid e
                         then ctx\<lparr>timeout := nvhost_debug_force_timeout_val e\<rparr> else ctx)
                  in case nvhost_channel_submit e j2 of (err, j3) \<Rightarrow>
                       if err \<noteq> 0
                       then (err, syncpt_end j3, ctx', h(a := nvhost_job_unpin e j3),
                             [JOB_PIN, CHANNEL_SUBMIT, JOB_UNPIN])
                       else (err, syncpt_end j3, ctx', h(a := j3), [JOB_PIN, CHANNEL_SUBMIT]))))"

subsection \<open>nvhost\_channelctl\<close>

text \<open>
  The body of \<^verbatim>\<open>case NVHOST_IOCTL_CHANNEL_SUBMIT_EXT\<close>; \<open>arg\<close> is the header that the
  dispatcher has copied into \<^verbatim>\<open>buf\<close>. The command decoding and the copying of the
  argument around the \<^verbatim>\<open>switch\<close> are the ioctl plumbing and stay outside.
\<close>

definition nvhost_channelctl_SUBMIT_EXT ::
  "env \<Rightarrow> nvhost_channel_userctx \<Rightarrow> heap \<Rightarrow> nvhost_submit_hdr_ext
    \<Rightarrow> int \<times> nvhost_channel_userctx \<times> heap" where
  "nvhost_channelctl_SUBMIT_EXT e priv h arg =
     (if num_relocs (hdr priv) \<noteq> 0 \<or> num_relocshifts priv \<noteq> 0 \<or>
         num_cmdbufs (hdr priv) \<noteq> 0 \<or> num_waitchks (hdr priv) \<noteq> 0
      then (- EIO, reset_submit priv, h)
      else if NVHOST_SUBMIT_VERSION_MAX_SUPPORTED e < submit_version arg
      then (- EINVAL, priv, h)
      else set_submit e (priv\<lparr>hdr := arg\<rparr>) h)"

text \<open>The body of \<^verbatim>\<open>case NVHOST_IOCTL_CHANNEL_SET_NVMAP_FD\<close>.\<close>

definition nvhost_channelctl_SET_NVMAP_FD ::
  "env \<Rightarrow> nvhost_channel_userctx \<Rightarrow> int \<Rightarrow> int \<times> nvhost_channel_userctx" where
  "nvhost_channelctl_SET_NVMAP_FD e priv fd =
     (case nvmap_client_get_file e fd of
        Inl err \<Rightarrow> (err, priv)
      | Inr new_client \<Rightarrow> (0, priv\<lparr>nvmap := Some new_client\<rparr>))"

subsection \<open>The expected record, in the spec's words\<close>

text \<open>
  The spec resolves the record expected next by the first nonzero remaining counter in
  the order cmdbufs, relocs, waitchks, reloc-shifts, and expects a header when all are
  zero. \<open>record_size\<close> is the wire size of one record of a kind.
\<close>

datatype record_kind = SUBMIT_HDR | CMDBUF | RELOC | WAITCHK | RELOC_SHIFT

definition expected_kind :: "nvhost_channel_userctx \<Rightarrow> record_kind" where
  "expected_kind priv =
     (if num_cmdbufs (hdr priv) \<noteq> 0 then CMDBUF
      else if num_relocs (hdr priv) \<noteq> 0 then RELOC
      else if num_waitchks (hdr priv) \<noteq> 0 then WAITCHK
      else if num_relocshifts priv \<noteq> 0 then RELOC_SHIFT
      else SUBMIT_HDR)"

definition record_size :: "env \<Rightarrow> record_kind \<Rightarrow> size_t" where
  "record_size e k =
     (case k of SUBMIT_HDR \<Rightarrow> sizeof_submit_hdr e | CMDBUF \<Rightarrow> sizeof_cmdbuf e
      | RELOC \<Rightarrow> sizeof_reloc e | WAITCHK \<Rightarrow> sizeof_waitchk e
      | RELOC_SHIFT \<Rightarrow> sizeof_reloc_shift e)"

text \<open>
  The state of the loop after \<open>n\<close> iterations that all went on (\<open>None\<close> when the loop
  has left before): the channel, the job memory, the bytes consumed and \<^verbatim>\<open>remaining\<close>.
\<close>

fun write_iter ::
  "nat \<Rightarrow> env \<Rightarrow> umem \<Rightarrow> addr \<Rightarrow> nvhost_channel_userctx \<Rightarrow> heap \<Rightarrow> size_t \<Rightarrow> size_t
    \<Rightarrow> (nvhost_channel_userctx \<times> heap \<times> size_t \<times> size_t) option" where
  "write_iter 0 e um a priv h buf remaining = Some (priv, h, buf, remaining)"
| "write_iter (Suc n) e um a priv h buf remaining =
     (if remaining = 0 then None
      else case write_step e um a priv h buf remaining of
        Break err priv' h' \<Rightarrow> None
      | Next priv' h' consumed \<Rightarrow>
          write_iter n e um a priv' h' (buf + consumed) (remaining - consumed))"

text \<open>
  A copy fault in the iteration that starts in a given state: enough bytes remain for the
  iteration to call \<^verbatim>\<open>copy_from_user\<close>, and the call fails.
\<close>

definition copy_faults ::
  "env \<Rightarrow> umem \<Rightarrow> nvhost_channel_userctx \<Rightarrow> size_t \<Rightarrow> size_t \<Rightarrow> bool" where
  "copy_faults e um priv buf remaining =
     (case expected_kind priv of
        WAITCHK \<Rightarrow>
          remaining div sizeof_waitchk e \<noteq> 0 \<and>
          copy_from_user um buf
            (min_t_int (remaining div sizeof_waitchk e) (num_waitchks (hdr priv)) *
             sizeof_waitchk e) = None
      | k \<Rightarrow> \<not> remaining < record_size e k \<and> copy_from_user um buf (record_size e k) = None)"

text \<open>
  The loop ends on every input when no record has size zero: each iteration that goes on
  either takes the remaining wait checks to zero or shortens \<^verbatim>\<open>remaining\<close>.
\<close>

definition sizes_positive :: "env \<Rightarrow> bool" where
  "sizes_positive e \<longleftrightarrow>
     sizeof_submit_hdr e \<noteq> 0 \<and> sizeof_cmdbuf e \<noteq> 0 \<and> sizeof_reloc e \<noteq> 0 \<and>
     sizeof_waitchk e \<noteq> 0 \<and> sizeof_reloc_shift e \<noteq> 0"

definition loop_measure :: "nvhost_channel_userctx \<Rightarrow> size_t \<Rightarrow> nat" where
  "loop_measure priv remaining =
     (if num_waitchks (hdr priv) \<noteq> 0 then 2 ^ 32 else 0) + unat remaining"

subsection \<open>A concrete environment\<close>

text \<open>
  An instance of the environment for evaluating the functions: the record sizes of the
  kernel's declarations (16, 12, 16, 16 and 4 bytes), little-endian fields, version 2 as
  the maximum, an allocator that reinitialises the job in place, and collaborators that
  succeed.
\<close>

definition le32 :: "byte list \<Rightarrow> u32" where
  "le32 bs = (case bs of [b0, b1, b2, b3] \<Rightarrow>
      ucast b0 + 256 * ucast b1 + 65536 * ucast b2 + 16777216 * ucast b3 | _ \<Rightarrow> 0)"

definition job0 :: nvhost_job where
  "job0 = \<lparr>gathers = [], pinarray = (\<lambda>_. \<lparr>reloc = [], reloc_shift = []\<rparr>), num_pins = 0,
           waitchk = (\<lambda>_. []), num_waitchk = 0, job_timeout = 0, null_kickoff = 0,
           syncpt_end = 0\<rparr>"

definition env0 :: env where
  "env0 = \<lparr>sizeof_submit_hdr = 16, sizeof_cmdbuf = 12, sizeof_reloc = 16, sizeof_waitchk = 16,
           sizeof_reloc_shift = 4,
           decode_submit_hdr = (\<lambda>bs. (le32 (take 4 bs), le32 (take 4 (drop 4 bs)),
              le32 (take 4 (drop 8 bs)), le32 (take 4 (drop 12 bs)))),
           NVHOST_SUBMIT_VERSION_MAX_SUPPORTED = 2,
           nvhost_job_realloc = (\<lambda>h j hw hd nm pr cl.
              case j of None \<Rightarrow> (Some 0, h(0 := job0)) | Some a \<Rightarrow> (Some a, h(a := job0))),
           nvhost_job_pin = (\<lambda>j. (0, j)),
           nvhost_channel_submit = (\<lambda>j. (0, j\<lparr>syncpt_end := 7\<rparr>)),
           nvhost_job_unpin = (\<lambda>j. j),
           nvmap_client_get_file = (\<lambda>fd. Inr 1),
           nvhost_debug_null_kickoff_pid = -1,
           nvhost_debug_force_timeout_pid = -1,
           nvhost_debug_force_timeout_channel = -1,
           nvhost_debug_force_timeout_val = 0,
           current_tgid = 100, chid = 0\<rparr>"

text \<open>The same with a device that rejects the job and an unpin that empties the gathers.\<close>

definition env_fail :: env where
  "env_fail = env0\<lparr>nvhost_channel_submit := (\<lambda>j. (- 16, j)),
                   nvhost_job_unpin := (\<lambda>j. j\<lparr>gathers := []\<rparr>)\<rparr>"

definition hdr0 :: nvhost_submit_hdr_ext where
  "hdr0 = \<lparr>syncpt_id = 0, syncpt_incrs = 0, num_cmdbufs = 0, num_relocs = 0,
           submit_version = 0, num_waitchks = 0, waitchk_mask = 0\<rparr>"

text \<open>A channel as \<^verbatim>\<open>nvhost_channelopen\<close> leaves it: zeroed, with a job at address 0.\<close>

definition ctx0 :: nvhost_channel_userctx where
  "ctx0 = \<lparr>hwctx = None, hdr = hdr0, num_relocshifts = 0, job = Some 0, nvmap = None,
           timeout = 0, priority = 100, clientid = 1\<rparr>"

text \<open>A channel with an nvmap client, one command buffer and one relocation outstanding.\<close>

definition ctx_c1r1 :: nvhost_channel_userctx where
  "ctx_c1r1 = ctx0\<lparr>hdr := hdr0\<lparr>num_cmdbufs := 1, num_relocs := 1\<rparr>, nvmap := Some 1\<rparr>"

definition bytes16 :: "byte list" where
  "bytes16 = [1, 0, 0, 0, 2, 0, 0, 0, 3, 0, 0, 0, 4, 0, 0, 0]"

definition bytes28 :: "byte list" where
  "bytes28 = [9, 0, 0, 0, 8, 0, 0, 0, 7, 0, 0, 0] @ bytes16"

definition job_g1 :: nvhost_job where
  "job_g1 = job0\<lparr>gathers := [[1, 0, 0, 0, 2, 0, 0, 0, 3, 0, 0, 0]]\<rparr>"

definition hdr_v2 :: nvhost_submit_hdr_ext where
  "hdr_v2 = hdr0\<lparr>num_cmdbufs := 1, num_relocs := 1, submit_version := 2\<rparr>"

definition hdr_w :: nvhost_submit_hdr_ext where
  "hdr_w = hdr0\<lparr>num_cmdbufs := 1, num_waitchks := 0xFFFFFFFF\<rparr>"

text \<open>
  The states of a version-2 submission of one command buffer and one relocation: after
  the header, and after the two records with the relocation shift still to come.
\<close>

definition ctx_v2 :: nvhost_channel_userctx where
  "ctx_v2 = ctx0\<lparr>hdr := hdr_v2, num_relocshifts := 1, nvmap := Some 1\<rparr>"

definition ctx_rs :: nvhost_channel_userctx where
  "ctx_rs = ctx0\<lparr>hdr := hdr0\<lparr>submit_version := 2\<rparr>, num_relocshifts := 1, nvmap := Some 1\<rparr>"

definition job_rs :: nvhost_job where
  "job_rs = job0\<lparr>gathers := [[9, 0, 0, 0, 8, 0, 0, 0, 7, 0, 0, 0]],
                  pinarray := (pinarray job0)(0 := \<lparr>reloc = bytes16, reloc_shift = []\<rparr>),
                  num_pins := 1\<rparr>"

text \<open>A channel on which a header with \<open>0xFFFFFFFF\<close> wait checks has been accepted.\<close>

definition ctx_w :: nvhost_channel_userctx where
  "ctx_w = ctx0\<lparr>hdr := hdr_w, nvmap := Some 1\<rparr>"

text \<open>A channel without nvmap client that holds a header declaring one command buffer.\<close>

definition ctx_nonvmap :: nvhost_channel_userctx where
  "ctx_nonvmap = ctx0\<lparr>hdr := hdr0\<lparr>num_cmdbufs := 1\<rparr>\<rparr>"

text \<open>
  An allocator that fails, and the channel it leaves behind when \<^verbatim>\<open>SUBMIT_EXT\<close> brings
  a header declaring one command buffer: the header stored, the job pointer NULL.
\<close>

definition env_nomem :: env where
  "env_nomem = env0\<lparr>nvhost_job_realloc := (\<lambda>h j hw hd nm pr cl. (None, h))\<rparr>"

definition ctx_nojob :: nvhost_channel_userctx where
  "ctx_nojob = ctx0\<lparr>hdr := hdr0\<lparr>num_cmdbufs := 1\<rparr>, job := None, nvmap := Some 1\<rparr>"

text \<open>
  A version-2 submission of one command buffer, one relocation and \<open>0x80000000\<close> wait
  checks: the header, the channel after the header, the channel when the command buffer
  and the relocation have been written, 44 bytes holding the two records and one wait
  check, and the job at the end of the write of those bytes.
\<close>

definition hdr_v2w :: nvhost_submit_hdr_ext where
  "hdr_v2w = hdr0\<lparr>num_cmdbufs := 1, num_relocs := 1, submit_version := 2,
                  num_waitchks := 0x80000000\<rparr>"

definition ctx_v2w :: nvhost_channel_userctx where
  "ctx_v2w = ctx0\<lparr>hdr := hdr_v2w, num_relocshifts := 1, nvmap := Some 1\<rparr>"

definition ctx_wk :: nvhost_channel_userctx where
  "ctx_wk = ctx0\<lparr>hdr := hdr0\<lparr>submit_version := 2, num_waitchks := 0x80000000\<rparr>,
                 num_relocshifts := 1, nvmap := Some 1\<rparr>"

definition bytes44 :: "byte list" where
  "bytes44 = bytes28 @ [5, 0, 0, 0, 6, 0, 0, 0, 7, 0, 0, 0, 8, 0, 0, 0]"

definition job_shifted :: nvhost_job where
  "job_shifted =
     job_rs\<lparr>pinarray := (pinarray job0)(0 := \<lparr>reloc = bytes16, reloc_shift = [5, 0, 0, 0]\<rparr>),
            num_waitchk := 0x80000000\<rparr>"

section \<open>The submission state guard\<close>

subsection \<open>Flush\<close>

lemma flush_guard:
  assumes "job ctx = None \<or> num_relocs (hdr ctx) \<noteq> 0 \<or> num_cmdbufs (hdr ctx) \<noteq> 0 \<or>
           num_waitchks (hdr ctx) \<noteq> 0"
  shows "nvhost_ioctl_channel_flush e ctx h v nk = (- EFAULT, v, reset_submit ctx, h, [])"
  using assms by (auto simp: nvhost_ioctl_channel_flush_def split: option.splits)

text \<open>
  C1. A flush is to fail, without a call to the device-submission collaborator, unless a
  job exists and all four remaining counters are zero. The guard of the flush tests the
  job and three counters only (\<open>flush_guard\<close>); \<^verbatim>\<open>num_relocshifts\<close>, which the guards of
  the write loop and of \<^verbatim>\<open>SUBMIT_EXT\<close> do test, is missing. Here a version-2 header
  declaring one command buffer and one relocation is accepted, the two records are
  written, and the relocation shift is not: the flush pins the job, submits it and
  returns 0, and the counter is still 1 afterwards.
\<close>

theorem flush_ignores_relocshifts:
  "nvhost_channelctl_SUBMIT_EXT env0 (ctx0\<lparr>nvmap := Some 1\<rparr>) (\<lambda>_. job0) hdr_v2 =
     (0, ctx_v2, (\<lambda>_. job0)) \<and>
   nvhost_channelwrite env0 (map Some bytes28) ctx_v2 (\<lambda>_. job0) 28 =
     Some (28, ctx_rs, (\<lambda>_. job0)(0 := job_rs)) \<and>
   job ctx_rs = Some 0 \<and> num_relocshifts ctx_rs = 1 \<and>
   nvhost_ioctl_channel_flush env0 ctx_rs ((\<lambda>_. job0)(0 := job_rs)) 0 0 =
     (0, 7, ctx_rs, (\<lambda>_. job0)(0 := job_rs\<lparr>syncpt_end := 7\<rparr>), [JOB_PIN, CHANNEL_SUBMIT])"
  by (simp add: nvhost_channelctl_SUBMIT_EXT_def set_submit_def nvhost_channelwrite_def
      write_loop.simps write_step_def write_cmdbuf_def nvhost_job_add_gather_def
      write_reloc_def copy_from_user_def
      nvhost_ioctl_channel_flush_def NVHOST_SUBMIT_VERSION_V2_def
      env0_def ctx0_def ctx_v2_def ctx_rs_def hdr0_def hdr_v2_def job0_def job_rs_def
      bytes28_def bytes16_def fun_upd_idem_iff)

theorem flush_ignores_relocshifts_witness:
  "fst (nvhost_ioctl_channel_flush env0 ctx_rs ((\<lambda>_. job0)(0 := job_rs)) 0 0) = 0 \<and>
   snd (snd (snd (snd (nvhost_ioctl_channel_flush env0 ctx_rs ((\<lambda>_. job0)(0 := job_rs)) 0 0)))) =
     [JOB_PIN, CHANNEL_SUBMIT]"
  using flush_ignores_relocshifts by simp

subsection \<open>A new extended header\<close>

text \<open>
  C2. When any of the four remaining counters is nonzero, \<^verbatim>\<open>SUBMIT_EXT\<close> returns
  \<^verbatim>\<open>-EIO\<close> whatever the header is; afterwards the four counters are zero, and the rest of
  the stored header, the job pointer and the job memory are as before: the new header has
  not been taken.
\<close>

theorem submit_ext_out_of_sync:
  assumes "num_cmdbufs (hdr priv) \<noteq> 0 \<or> num_relocs (hdr priv) \<noteq> 0 \<or>
           num_waitchks (hdr priv) \<noteq> 0 \<or> num_relocshifts priv \<noteq> 0"
  shows "nvhost_channelctl_SUBMIT_EXT e priv h arg = (- EIO, reset_submit priv, h) \<and>
         num_cmdbufs (hdr (reset_submit priv)) = 0 \<and>
         num_relocs (hdr (reset_submit priv)) = 0 \<and>
         num_waitchks (hdr (reset_submit priv)) = 0 \<and>
         num_relocshifts (reset_submit priv) = 0 \<and>
         syncpt_id (hdr (reset_submit priv)) = syncpt_id (hdr priv) \<and>
         syncpt_incrs (hdr (reset_submit priv)) = syncpt_incrs (hdr priv) \<and>
         submit_version (hdr (reset_submit priv)) = submit_version (hdr priv) \<and>
         waitchk_mask (hdr (reset_submit priv)) = waitchk_mask (hdr priv) \<and>
         job (reset_submit priv) = job priv \<and> nvmap (reset_submit priv) = nvmap priv"
  using assms by (auto simp: nvhost_channelctl_SUBMIT_EXT_def reset_submit_def)

theorem submit_ext_out_of_sync_witness:
  "num_relocshifts (ctx0\<lparr>num_relocshifts := 3\<rparr>) \<noteq> 0 \<and>
   nvhost_channelctl_SUBMIT_EXT env0 (ctx0\<lparr>num_relocshifts := 3\<rparr>) (\<lambda>_. job0)
      (hdr0\<lparr>num_cmdbufs := 1\<rparr>) = (- EIO, ctx0, (\<lambda>_. job0))"
proof -
  have c: "num_cmdbufs (hdr (ctx0\<lparr>num_relocshifts := 3\<rparr>)) \<noteq> 0 \<or>
           num_relocs (hdr (ctx0\<lparr>num_relocshifts := 3\<rparr>)) \<noteq> 0 \<or>
           num_waitchks (hdr (ctx0\<lparr>num_relocshifts := 3\<rparr>)) \<noteq> 0 \<or>
           num_relocshifts (ctx0\<lparr>num_relocshifts := 3\<rparr>) \<noteq> 0"
    by simp
  show ?thesis
    using submit_ext_out_of_sync [OF c, of env0 "\<lambda>_. job0" "hdr0\<lparr>num_cmdbufs := 1\<rparr>"]
    by (simp add: reset_submit_def ctx0_def hdr0_def)
qed

text \<open>
  C3. A header whose version exceeds the maximum is to be rejected with \<^verbatim>\<open>-EINVAL\<close>, the
  state untouched. The version is looked at only after the out-of-sync guard: with a
  submission in progress the same header gets \<^verbatim>\<open>-EIO\<close> and the counters are reset.
\<close>

theorem submit_ext_version_counterexample:
  "NVHOST_SUBMIT_VERSION_MAX_SUPPORTED env0 < submit_version (hdr0\<lparr>submit_version := 3\<rparr>) \<and>
   fst (nvhost_channelctl_SUBMIT_EXT env0 (ctx0\<lparr>hdr := hdr0\<lparr>num_relocs := 2\<rparr>\<rparr>) (\<lambda>_. job0)
          (hdr0\<lparr>submit_version := 3\<rparr>)) = - EIO \<and>
   - EIO \<noteq> - EINVAL \<and>
   num_relocs (hdr (ctx0\<lparr>hdr := hdr0\<lparr>num_relocs := 2\<rparr>\<rparr>)) = 2 \<and>
   num_relocs (hdr (fst (snd (nvhost_channelctl_SUBMIT_EXT env0
      (ctx0\<lparr>hdr := hdr0\<lparr>num_relocs := 2\<rparr>\<rparr>) (\<lambda>_. job0) (hdr0\<lparr>submit_version := 3\<rparr>))))) = 0"
  by (simp add: nvhost_channelctl_SUBMIT_EXT_def env0_def ctx0_def hdr0_def reset_submit_def
      EIO_def EINVAL_def)

text \<open>
  C3, amended. For a header whose version exceeds the maximum: when the four remaining
  counters are zero the call returns \<^verbatim>\<open>-EINVAL\<close> and the channel state and the job memory
  are unchanged; otherwise the out-of-sync guard answers first, with \<^verbatim>\<open>-EIO\<close> and the
  counters reset. In neither case is the header stored or a job allocated.
\<close>

theorem submit_ext_unsupported_version:
  assumes "NVHOST_SUBMIT_VERSION_MAX_SUPPORTED e < submit_version arg"
  shows "nvhost_channelctl_SUBMIT_EXT e priv h arg =
           (if num_cmdbufs (hdr priv) = 0 \<and> num_relocs (hdr priv) = 0 \<and>
               num_waitchks (hdr priv) = 0 \<and> num_relocshifts priv = 0
            then (- EINVAL, priv, h) else (- EIO, reset_submit priv, h))"
  using assms by (auto simp: nvhost_channelctl_SUBMIT_EXT_def)

theorem submit_ext_unsupported_version_witness:
  "NVHOST_SUBMIT_VERSION_MAX_SUPPORTED env0 < submit_version (hdr0\<lparr>submit_version := 3\<rparr>) \<and>
   nvhost_channelctl_SUBMIT_EXT env0 ctx0 (\<lambda>_. job0) (hdr0\<lparr>submit_version := 3\<rparr>) =
     (- EINVAL, ctx0, (\<lambda>_. job0))"
proof -
  have v: "NVHOST_SUBMIT_VERSION_MAX_SUPPORTED env0 < submit_version (hdr0\<lparr>submit_version := 3\<rparr>)"
    by (simp add: env0_def)
  show ?thesis
    using v submit_ext_unsupported_version [OF v, of ctx0 "\<lambda>_. job0"]
    by (simp add: ctx0_def hdr0_def)
qed

section \<open>The streaming record assembler\<close>

subsection \<open>The loop\<close>

lemma write_step_expected_kind:
  "write_step e um a priv h buf remaining =
     (case expected_kind priv of
        SUBMIT_HDR \<Rightarrow> write_hdr e um priv h buf remaining
      | CMDBUF \<Rightarrow> write_cmdbuf e um a priv h buf remaining
      | RELOC \<Rightarrow> write_reloc e um a priv h buf remaining
      | WAITCHK \<Rightarrow> write_waitchks e um a priv h buf remaining
      | RELOC_SHIFT \<Rightarrow> write_relocshift e um a priv h buf remaining)"
  by (simp add: write_step_def expected_kind_def)

lemma write_loop_iter:
  "write_iter n e um a priv h buf remaining = Some (priv', h', buf', remaining') \<Longrightarrow>
   write_loop e um a priv h buf remaining = write_loop e um a priv' h' buf' remaining'"
proof (induction n arbitrary: priv h buf remaining)
  case 0
  then show ?case by simp
next
  case (Suc n)
  from Suc.prems have nz: "remaining \<noteq> 0"
    by (simp split: if_splits)
  from Suc.prems nz obtain p1 h1 c where
    st: "write_step e um a priv h buf remaining = Next p1 h1 c" and
    it: "write_iter n e um a p1 h1 (buf + c) (remaining - c) = Some (priv', h', buf', remaining')"
    by (auto split: step.splits)
  have "write_loop e um a priv h buf remaining = write_loop e um a p1 h1 (buf + c) (remaining - c)"
    using nz st by (subst write_loop.simps) simp
  with Suc.IH [OF it] show ?case by simp
qed

lemma write_step_stall:
  assumes "remaining < record_size e (expected_kind priv)"
  shows "write_step e um a priv h buf remaining = Break 0 priv h"
proof -
  have w: "remaining < sizeof_waitchk e \<Longrightarrow> remaining div sizeof_waitchk e = 0"
    by (simp add: div_word_less)
  show ?thesis
    using assms w
    by (auto simp: write_step_expected_kind record_size_def write_hdr_def write_cmdbuf_def
        nvhost_job_add_gather_def write_reloc_def write_waitchks_def write_relocshift_def Let_def
        split: record_kind.splits)
qed

lemma write_step_fault:
  assumes "copy_faults e um priv buf remaining"
  shows "write_step e um a priv h buf remaining = Break (- EFAULT) priv h"
  using assms
  by (auto simp: copy_faults_def write_step_expected_kind record_size_def write_hdr_def
      write_cmdbuf_def nvhost_job_add_gather_def write_reloc_def write_waitchks_def
      write_relocshift_def Let_def split: record_kind.splits)

lemma unat_sub_less:
  fixes r c :: size_t
  assumes "c \<noteq> 0" and "\<not> r < c"
  shows "unat (r - c) < unat r"
proof -
  have "c \<le> r" using assms(2) by simp
  then have "unat (r - c) = unat r - unat c" by (rule unat_sub)
  moreover have "0 < unat c" using assms(1) by (simp add: unat_gt_0)
  moreover have "unat c \<le> unat r" using \<open>c \<le> r\<close> by (simp add: word_le_nat_alt)
  ultimately show ?thesis by simp
qed

lemma loop_measure_decreases:
  assumes "c \<noteq> 0" and "\<not> r < c"
    and "num_waitchks (hdr p') = num_waitchks (hdr p)"
  shows "loop_measure p' (r - c) < loop_measure p r"
  using assms unat_sub_less [of c r] by (simp add: loop_measure_def)

lemma set_submit_keeps_waitchks:
  "set_submit e ctx h = (err, ctx', h') \<Longrightarrow> num_waitchks (hdr ctx') = num_waitchks (hdr ctx)"
  by (auto simp: set_submit_def split: if_splits option.splits prod.splits)

lemma write_step_decreases:
  assumes sp: "sizes_positive e"
    and st: "write_step e um a priv h buf remaining = Next priv' h' consumed"
  shows "loop_measure priv' (remaining - consumed) < loop_measure priv remaining"
proof (cases "expected_kind priv")
  case SUBMIT_HDR
  then have w0: "num_waitchks (hdr priv) = 0"
    by (auto simp: expected_kind_def split: if_splits)
  from st SUBMIT_HDR have "write_hdr e um priv h buf remaining = Next priv' h' consumed"
    by (simp add: write_step_expected_kind)
  then have "consumed = sizeof_submit_hdr e \<and> \<not> remaining < consumed \<and>
      num_waitchks (hdr priv') = 0"
    using w0
    by (auto simp: write_hdr_def Let_def split: if_splits option.splits prod.splits
        dest!: set_submit_keeps_waitchks)
  then show ?thesis
    using sp w0 by (intro loop_measure_decreases) (auto simp: sizes_positive_def)
next
  case CMDBUF
  with st have "write_cmdbuf e um a priv h buf remaining = Next priv' h' consumed"
    by (simp add: write_step_expected_kind)
  then have "consumed = sizeof_cmdbuf e \<and> \<not> remaining < consumed \<and>
      num_waitchks (hdr priv') = num_waitchks (hdr priv)"
    by (auto simp: write_cmdbuf_def nvhost_job_add_gather_def Let_def
        split: if_splits option.splits)
  then show ?thesis
    using sp by (intro loop_measure_decreases) (auto simp: sizes_positive_def)
next
  case RELOC
  with st have "write_reloc e um a priv h buf remaining = Next priv' h' consumed"
    by (simp add: write_step_expected_kind)
  then have "consumed = sizeof_reloc e \<and> \<not> remaining < consumed \<and>
      num_waitchks (hdr priv') = num_waitchks (hdr priv)"
    by (auto simp: write_reloc_def Let_def split: if_splits option.splits)
  then show ?thesis
    using sp by (intro loop_measure_decreases) (auto simp: sizes_positive_def)
next
  case RELOC_SHIFT
  with st have "write_relocshift e um a priv h buf remaining = Next priv' h' consumed"
    by (simp add: write_step_expected_kind)
  then have "consumed = sizeof_reloc_shift e \<and> \<not> remaining < consumed \<and>
      num_waitchks (hdr priv') = num_waitchks (hdr priv)"
    by (auto simp: write_relocshift_def Let_def split: if_splits option.splits)
  then show ?thesis
    using sp by (intro loop_measure_decreases) (auto simp: sizes_positive_def)
next
  case WAITCHK
  let ?sz = "sizeof_waitchk e"
  let ?w = "num_waitchks (hdr priv)"
  let ?q = "remaining div ?sz"
  have wnz: "?w \<noteq> 0"
    using WAITCHK by (auto simp: expected_kind_def split: if_splits)
  have sz: "?sz \<noteq> 0" using sp by (simp add: sizes_positive_def)
  from st WAITCHK have ww: "write_waitchks e um a priv h buf remaining = Next priv' h' consumed"
    by (simp add: write_step_expected_kind)
  then have qnz: "?q \<noteq> 0"
    by (auto simp: write_waitchks_def Let_def split: if_splits)
  from ww qnz have eqs: "consumed = min_t_int ?q ?w * ?sz"
      "num_waitchks (hdr priv') = ?w - min_t_int ?q ?w"
    by (auto simp: write_waitchks_def Let_def split: if_splits option.splits)
  show ?thesis
  proof (cases "sint ?q < sint ?w")
    case True
    then have c: "consumed = ?q * ?sz"
      using eqs by (simp add: min_t_int_def)
    have le: "?q * ?sz \<le> remaining" by (rule word_div_mult_le)
    have "unat ?q * unat ?sz \<le> unat remaining"
      by (simp add: unat_div)
    also have "\<dots> < 2 ^ LENGTH(32)"
      by (rule unsigned_less)
    finally have "unat (?q * ?sz) = unat ?q * unat ?sz"
      by (simp only: unat_mult_lem)
    then have "?q * ?sz \<noteq> 0"
      using qnz sz by (metis mult_is_0 unat_eq_zero)
    with le c have "unat (remaining - consumed) < unat remaining"
      using unat_sub_less [of consumed remaining] by simp
    then show ?thesis
      using wnz by (simp add: loop_measure_def)
  next
    case False
    then have "num_waitchks (hdr priv') = 0"
      using eqs by (simp add: min_t_int_def)
    moreover have "unat (remaining - consumed) < 2 ^ 32"
      using unsigned_less [of "remaining - consumed", where 'a = nat] by simp
    ultimately show ?thesis
      using wnz by (simp add: loop_measure_def)
  qed
qed

lemma write_loop_terminates:
  assumes "sizes_positive e"
  shows "\<exists>r. write_loop e um a priv h buf remaining = Some r"
proof (induction "loop_measure priv remaining" arbitrary: priv h buf remaining rule: less_induct)
  case less
  show ?case
  proof (cases "remaining = 0")
    case True
    then show ?thesis by (subst write_loop.simps) simp
  next
    case False
    show ?thesis
    proof (cases "write_step e um a priv h buf remaining")
      case (Break err p1 h1)
      with False show ?thesis by (subst write_loop.simps) simp
    next
      case (Next p1 h1 c)
      from write_step_decreases [OF assms Next]
      have "\<exists>r. write_loop e um a p1 h1 (buf + c) (remaining - c) = Some r"
        by (rule less)
      with False Next show ?thesis by (subst write_loop.simps) simp
    qed
  qed
qed

lemma nvhost_channelwrite_returns:
  assumes "sizes_positive e"
  shows "\<exists>r. nvhost_channelwrite e um priv h count = Some r"
proof (cases "job priv")
  case None
  then show ?thesis by (simp add: nvhost_channelwrite_def)
next
  case (Some a)
  from write_loop_terminates [OF assms]
  obtain r where "write_loop e um a priv h 0 count = Some r" by blast
  with Some show ?thesis
    by (cases r) (simp add: nvhost_channelwrite_def)
qed

lemma submit_ext_accepted:
  assumes "nvhost_channelctl_SUBMIT_EXT e priv h arg = (0, priv', h')"
  shows "hdr priv' = arg \<and>
      num_relocshifts priv' =
        (if NVHOST_SUBMIT_VERSION_V2 \<le> submit_version arg then num_relocs arg else 0)"
  using assms
  by (auto simp: nvhost_channelctl_SUBMIT_EXT_def set_submit_def reset_submit_def EIO_def
      EINVAL_def EFAULT_def ENOMEM_def split: if_splits option.splits prod.splits)

lemma write_hdr_accepted:
  assumes "expected_kind priv = SUBMIT_HDR"
    and "write_step e um a priv h buf remaining = Next priv' h' consumed"
  shows "submit_version (hdr priv') = NVHOST_SUBMIT_VERSION_V0 \<and> num_relocshifts priv' = 0"
  using assms
  by (auto simp: write_step_expected_kind expected_kind_def write_hdr_def set_submit_def
      Let_def NVHOST_SUBMIT_VERSION_V0_def NVHOST_SUBMIT_VERSION_V2_def
      split: if_splits option.splits prod.splits)

lemma write_relocshift_effect:
  assumes "expected_kind priv = RELOC_SHIFT" and "\<not> remaining < sizeof_reloc_shift e"
    and "copy_from_user um buf (sizeof_reloc_shift e) = Some bs"
  shows "write_step e um a priv h buf remaining =
        Next (priv\<lparr>num_relocshifts := num_relocshifts priv - 1\<rparr>)
             (h(a := (h a)\<lparr>pinarray := (pinarray (h a))
                  (sint (num_pins (h a) - num_relocshifts priv) :=
                     (pinarray (h a) (sint (num_pins (h a) - num_relocshifts priv)))
                       \<lparr>reloc_shift := bs\<rparr>)\<rparr>))
             (sizeof_reloc_shift e)"
  using assms by (simp add: write_step_expected_kind write_relocshift_def Let_def)

lemma sint_diff_in_range:
  fixes x y :: u32
  assumes "0 \<le> sint y" and "sint y \<le> sint x"
  shows "sint (x - y) = sint x - sint y"
proof -
  have "sint x < 2 ^ 31"
    using sint_lt [of x] by simp
  with assms have "- (2 ^ 31) \<le> sint x - sint y" "sint x - sint y < 2 ^ 31"
    by simp_all
  then have "signed_take_bit 31 (sint x - sint y) = sint x - sint y"
    by (rule signed_take_bit_int_eq_self)
  then show ?thesis
    by (simp add: sint_word_ariths)
qed

lemma write_cmdbuf_effect:
  assumes "num_cmdbufs (hdr priv) \<noteq> 0" and "\<not> remaining < sizeof_cmdbuf e"
    and "copy_from_user um buf (sizeof_cmdbuf e) = Some bs"
  shows "write_step e um a priv h buf remaining =
        Next (priv\<lparr>hdr := (hdr priv)\<lparr>num_cmdbufs := num_cmdbufs (hdr priv) - 1\<rparr>\<rparr>)
             (h(a := (h a)\<lparr>gathers := gathers (h a) @ [bs]\<rparr>))
             (sizeof_cmdbuf e)"
  using assms
  by (simp add: write_step_expected_kind expected_kind_def write_cmdbuf_def
      nvhost_job_add_gather_def Let_def)

lemma write_reloc_effect:
  assumes "num_cmdbufs (hdr priv) = 0" and "num_relocs (hdr priv) \<noteq> 0"
    and "\<not> remaining < sizeof_reloc e"
    and "copy_from_user um buf (sizeof_reloc e) = Some bs"
  shows "write_step e um a priv h buf remaining =
        Next (priv\<lparr>hdr := (hdr priv)\<lparr>num_relocs := num_relocs (hdr priv) - 1\<rparr>\<rparr>)
             (h(a := (h a)\<lparr>pinarray := (pinarray (h a))
                       (sint (num_pins (h a)) :=
                          (pinarray (h a) (sint (num_pins (h a))))\<lparr>reloc := bs\<rparr>),
                     num_pins := num_pins (h a) + 1\<rparr>))
             (sizeof_reloc e)"
  using assms
  by (simp add: write_step_expected_kind expected_kind_def write_reloc_def Let_def)

lemma sint_eq_uint_small:
  fixes x :: u32
  assumes "unat x < 2 ^ 31"
  shows "sint x = uint x"
proof -
  have hi: "uint x < 2 ^ 31"
    using assms by (metis of_nat_less_numeral_power_cancel_iff of_nat_unat)
  have "(0::int) \<le> uint x" by simp
  then have lo: "- (2 ^ 31) \<le> uint x"
    by (rule order_trans [rotated]) simp
  from lo hi have "signed_take_bit 31 (uint x) = uint x"
    by (rule signed_take_bit_int_eq_self)
  then show ?thesis
    by (simp add: sint_uint)
qed

lemma min_t_int_in_range:
  fixes x y :: u32
  assumes "unat x < 2 ^ 31" and "unat y < 2 ^ 31"
  shows "min_t_int x y = of_nat (min (unat x) (unat y))"
proof -
  have "uint x < uint y \<longleftrightarrow> unat x < unat y"
    by (metis word_less_iff_unsigned)
  then have "sint x < sint y \<longleftrightarrow> unat x < unat y"
    using assms by (simp add: sint_eq_uint_small)
  then show ?thesis
    by (simp add: min_t_int_def min_def)
qed

lemma write_waitchks_batch:
  assumes k: "expected_kind priv = WAITCHK"
    and w: "unat (num_waitchks (hdr priv)) < 2 ^ 31"
    and r: "unat remaining div unat (sizeof_waitchk e) < 2 ^ 31"
    and n: "n = min (unat remaining div unat (sizeof_waitchk e)) (unat (num_waitchks (hdr priv)))"
    and c: "copy_from_user um buf (of_nat n * sizeof_waitchk e) = Some bs"
    and fit: "unat (sizeof_waitchk e) \<le> unat remaining"
    and sz: "sizeof_waitchk e \<noteq> 0"
  shows "write_step e um a priv h buf remaining =
      Next (priv\<lparr>hdr := (hdr priv)\<lparr>num_waitchks := num_waitchks (hdr priv) - of_nat n\<rparr>\<rparr>)
        (h(a := (h a)\<lparr>waitchk := store_records (unat (sizeof_waitchk e)) (waitchk (h a))
                                   (sint (num_waitchk (h a))) bs,
                       num_waitchk := num_waitchk (h a) + of_nat n\<rparr>))
        (of_nat n * sizeof_waitchk e) \<and>
    unat (of_nat n * sizeof_waitchk e) = n * unat (sizeof_waitchk e) \<and>
    n * unat (sizeof_waitchk e) \<le> unat remaining \<and>
    unat (num_waitchks (hdr priv) - of_nat n) = unat (num_waitchks (hdr priv)) - n \<and>
    0 < n"
proof -
  let ?sz = "sizeof_waitchk e"
  let ?w = "num_waitchks (hdr priv)"
  let ?q = "remaining div ?sz"
  have uq: "unat ?q = unat remaining div unat ?sz"
    by (simp add: unat_div)
  have szpos: "0 < unat ?sz"
    using sz by (simp add: unat_gt_0)
  have qpos: "0 < unat remaining div unat ?sz"
    using fit szpos by (simp add: div_greater_zero_iff)
  then have qnz: "?q \<noteq> 0"
    using uq by (metis unat_eq_zero not_gr_zero)
  have wnz: "?w \<noteq> 0"
    using k by (auto simp: expected_kind_def split: if_splits)
  have m: "min_t_int ?q ?w = of_nat n"
    using min_t_int_in_range [of ?q ?w] r w uq n by simp
  have le: "n * unat ?sz \<le> unat remaining"
  proof -
    have "n \<le> unat remaining div unat ?sz" using n by simp
    then have "n * unat ?sz \<le> (unat remaining div unat ?sz) * unat ?sz"
      by (rule mult_le_mono1)
    also have "\<dots> \<le> unat remaining" by simp
    finally show ?thesis .
  qed
  have "unat (of_nat (n * unat ?sz) :: size_t) = n * unat ?sz"
    using le by (rule le_unat_uoi)
  then have un: "unat (of_nat n * ?sz) = n * unat ?sz"
    by simp
  have "0 < unat ?w"
    using wnz by (simp add: unat_gt_0)
  with qpos have npos: "0 < n"
    using n by simp
  have nle: "n \<le> unat ?w" using n by simp
  then have un': "unat (of_nat n :: u32) = n"
    by (rule le_unat_uoi)
  then have "(of_nat n :: u32) \<le> ?w"
    using nle by (simp add: word_le_nat_alt)
  then have sub: "unat (?w - of_nat n) = unat ?w - n"
    using un' by (simp add: unat_sub)
  have "write_waitchks e um a priv h buf remaining =
      Next (priv\<lparr>hdr := (hdr priv)\<lparr>num_waitchks := ?w - of_nat n\<rparr>\<rparr>)
        (h(a := (h a)\<lparr>waitchk := store_records (unat ?sz) (waitchk (h a))
                                   (sint (num_waitchk (h a))) bs,
                       num_waitchk := num_waitchk (h a) + of_nat n\<rparr>))
        (of_nat n * ?sz)"
    using qnz m c by (simp add: write_waitchks_def Let_def)
  with k un le sub npos show ?thesis
    by (simp add: write_step_expected_kind)
qed

lemma unat_le_of_not_less:
  fixes r c :: size_t
  assumes "\<not> r < c"
  shows "unat c \<le> unat r"
  using assms by (simp add: word_less_nat_alt)

lemma write_step_in_range:
  assumes w: "unat (num_waitchks (hdr priv)) < 2 ^ 31"
    and r: "unat remaining div unat (sizeof_waitchk e) < 2 ^ 31"
    and st: "write_step e um a priv h buf remaining = Next priv' h' c"
  shows "unat c \<le> unat remaining \<and>
         unat (num_waitchks (hdr priv')) \<le> unat (num_waitchks (hdr priv)) \<and>
         (if expected_kind priv = WAITCHK
          then unat c =
                 min (unat remaining div unat (sizeof_waitchk e))
                     (unat (num_waitchks (hdr priv))) * unat (sizeof_waitchk e) \<and>
               0 < unat c
          else c = record_size e (expected_kind priv))"
proof (cases "expected_kind priv")
  case SUBMIT_HDR
  then have w0: "num_waitchks (hdr priv) = 0"
    by (auto simp: expected_kind_def split: if_splits)
  from st SUBMIT_HDR have "write_hdr e um priv h buf remaining = Next priv' h' c"
    by (simp add: write_step_expected_kind)
  then have "c = sizeof_submit_hdr e \<and> \<not> remaining < c \<and> num_waitchks (hdr priv') = 0"
    using w0
    by (auto simp: write_hdr_def Let_def split: if_splits option.splits prod.splits
        dest!: set_submit_keeps_waitchks)
  with SUBMIT_HDR show ?thesis
    by (auto simp: record_size_def dest: unat_le_of_not_less)
next
  case CMDBUF
  with st have "write_cmdbuf e um a priv h buf remaining = Next priv' h' c"
    by (simp add: write_step_expected_kind)
  then have "c = sizeof_cmdbuf e \<and> \<not> remaining < c \<and>
      num_waitchks (hdr priv') = num_waitchks (hdr priv)"
    by (auto simp: write_cmdbuf_def nvhost_job_add_gather_def Let_def
        split: if_splits option.splits)
  with CMDBUF show ?thesis
    by (auto simp: record_size_def dest: unat_le_of_not_less)
next
  case RELOC
  with st have "write_reloc e um a priv h buf remaining = Next priv' h' c"
    by (simp add: write_step_expected_kind)
  then have "c = sizeof_reloc e \<and> \<not> remaining < c \<and>
      num_waitchks (hdr priv') = num_waitchks (hdr priv)"
    by (auto simp: write_reloc_def Let_def split: if_splits option.splits)
  with RELOC show ?thesis
    by (auto simp: record_size_def dest: unat_le_of_not_less)
next
  case RELOC_SHIFT
  with st have "write_relocshift e um a priv h buf remaining = Next priv' h' c"
    by (simp add: write_step_expected_kind)
  then have "c = sizeof_reloc_shift e \<and> \<not> remaining < c \<and>
      num_waitchks (hdr priv') = num_waitchks (hdr priv)"
    by (auto simp: write_relocshift_def Let_def split: if_splits option.splits)
  with RELOC_SHIFT show ?thesis
    by (auto simp: record_size_def dest: unat_le_of_not_less)
next
  case WAITCHK
  let ?sz = "sizeof_waitchk e"
  let ?w = "num_waitchks (hdr priv)"
  let ?q = "remaining div ?sz"
  let ?n = "min (unat remaining div unat ?sz) (unat ?w)"
  from st WAITCHK have ww: "write_waitchks e um a priv h buf remaining = Next priv' h' c"
    by (simp add: write_step_expected_kind)
  then have qnz: "?q \<noteq> 0"
    by (auto simp: write_waitchks_def Let_def split: if_splits)
  then have sz: "?sz \<noteq> 0"
    by auto
  have uq: "unat ?q = unat remaining div unat ?sz"
    by (simp add: unat_div)
  have "0 < unat ?q"
    using qnz by (simp add: unat_gt_0)
  then have fit: "unat ?sz \<le> unat remaining"
    using uq by (metis div_less not_less less_numeral_extra(3))
  have m: "min_t_int ?q ?w = of_nat ?n"
    using min_t_int_in_range [of ?q ?w] r w uq by simp
  from ww qnz m obtain bs where
    cp: "copy_from_user um buf (of_nat ?n * ?sz) = Some bs"
    by (auto simp: write_waitchks_def Let_def split: if_splits option.splits)
  from write_waitchks_batch [OF WAITCHK w r refl cp fit sz, of a h] st
  have "c = of_nat ?n * ?sz" "priv' = priv\<lparr>hdr := (hdr priv)\<lparr>num_waitchks := ?w - of_nat ?n\<rparr>\<rparr>"
    and un: "unat (of_nat ?n * ?sz) = ?n * unat ?sz"
    and le: "?n * unat ?sz \<le> unat remaining"
    and sub: "unat (?w - of_nat ?n) = unat ?w - ?n"
    and npos: "0 < ?n"
    by simp_all
  moreover have "0 < unat ?sz" using sz by (simp add: unat_gt_0)
  ultimately show ?thesis
    using WAITCHK by simp
qed

lemma write_iter_in_range:
  assumes "write_iter n e um a priv h buf remaining = Some (priv', h', buf', remaining')"
    and "unat (num_waitchks (hdr priv)) < 2 ^ 31"
    and "unat remaining div unat (sizeof_waitchk e) < 2 ^ 31"
    and "unat buf + unat remaining < 2 ^ 32"
  shows "unat buf' + unat remaining' = unat buf + unat remaining \<and>
         unat remaining' \<le> unat remaining \<and>
         unat (num_waitchks (hdr priv')) < 2 ^ 31"
  using assms
proof (induction n arbitrary: priv h buf remaining)
  case 0
  then show ?case by simp
next
  case (Suc n)
  from Suc.prems(1) have nz: "remaining \<noteq> 0"
    by (simp split: if_splits)
  from Suc.prems(1) nz obtain p1 h1 c where
    st: "write_step e um a priv h buf remaining = Next p1 h1 c" and
    it: "write_iter n e um a p1 h1 (buf + c) (remaining - c) = Some (priv', h', buf', remaining')"
    by (auto split: step.splits)
  from write_step_in_range [OF Suc.prems(2,3) st]
  have cle: "unat c \<le> unat remaining"
    and wle: "unat (num_waitchks (hdr p1)) \<le> unat (num_waitchks (hdr priv))"
    by simp_all
  have "c \<le> remaining" using cle by (simp add: word_le_nat_alt)
  then have ur: "unat (remaining - c) = unat remaining - unat c"
    by (rule unat_sub)
  have "unat buf + unat c < 2 ^ LENGTH(32)"
    using cle Suc.prems(4) by simp
  then have ub: "unat (buf + c) = unat buf + unat c"
    by (simp only: unat_add_lem)
  have w1: "unat (num_waitchks (hdr p1)) < 2 ^ 31"
    using wle Suc.prems(2) by simp
  have "unat (remaining - c) div unat (sizeof_waitchk e) \<le>
      unat remaining div unat (sizeof_waitchk e)"
    using ur by (simp add: div_le_mono)
  then have r1: "unat (remaining - c) div unat (sizeof_waitchk e) < 2 ^ 31"
    using Suc.prems(3) by simp
  have s1: "unat (buf + c) + unat (remaining - c) < 2 ^ 32"
    using ub ur cle Suc.prems(4) by simp
  from Suc.IH [OF it w1 r1 s1] ub ur cle show ?case
    by arith
qed


lemma waitchk_batch_overruns_buffer:
  "(case write_step env0 (map Some (bytes16 @ bytes16 @ bytes16)) 0
           (ctx0\<lparr>hdr := hdr0\<lparr>num_waitchks := 0xF0000002\<rparr>, nvmap := Some 1\<rparr>) (\<lambda>_. job0) 0 24 of
      Next p1 h1 c \<Rightarrow> c = 32 \<and> 24 - c = 0xFFFFFFF8
    | Break err p1 h1 \<Rightarrow> False)"
  by (simp add: write_step_def write_waitchks_def min_t_int_def copy_from_user_def
      env0_def ctx0_def hdr0_def bytes16_def)

subsection \<open>The order of the records\<close>

text \<open>
  C4. Every iteration of the write loop is to handle the record kind that the first
  nonzero counter names, in the order cmdbufs, relocs, waitchks, reloc-shifts, so that
  bytes supplied while an earlier kind is outstanding are consumed as that kind. The
  chain of conditions does select the branch in this order (\<open>write_step_expected_kind\<close>),
  and the branches for command buffers, relocations and relocation shifts consume one
  record of their kind (\<open>write_cmdbuf_effect\<close>, \<open>write_reloc_effect\<close>,
  \<open>write_relocshift_effect\<close>), as the waitchk branch does for fewer than \<open>2 ^ 31\<close> wait
  checks (\<open>write_waitchks_batch\<close>). But the waitchk branch takes its batch with
  \<^verbatim>\<open>min_t(int, ...)\<close>. Here a version-2 header declaring one command buffer, one
  relocation and \<open>0x80000000\<close> wait checks is accepted, and 44 bytes are written: the
  command buffer, the relocation and one whole wait check. With the wait checks
  outstanding and 16 bytes in front of it, the waitchk iteration takes a batch of
  \<open>- 2 ^ 31\<close> records, consumes 0 bytes and leaves the counter at zero; the next iteration
  stores the first four bytes of the wait check as the relocation shift of pin 0, and the
  call returns 32.
\<close>

theorem waitchk_bytes_taken_as_reloc_shift:
  "nvhost_channelctl_SUBMIT_EXT env0 (ctx0\<lparr>nvmap := Some 1\<rparr>) (\<lambda>_. job0) hdr_v2w =
     (0, ctx_v2w, (\<lambda>_. job0)) \<and>
   write_iter (Suc (Suc 0)) env0 (map Some bytes44) 0 ctx_v2w (\<lambda>_. job0) 0 44 =
     Some (ctx_wk, (\<lambda>_. job0)(0 := job_rs), 28, 16) \<and>
   expected_kind ctx_wk = WAITCHK \<and>
   write_step env0 (map Some bytes44) 0 ctx_wk ((\<lambda>_. job0)(0 := job_rs)) 28 16 =
     Next ctx_rs ((\<lambda>_. job0)(0 := job_rs\<lparr>num_waitchk := 0x80000000\<rparr>)) 0 \<and>
   expected_kind ctx_rs = RELOC_SHIFT \<and>
   nvhost_channelwrite env0 (map Some bytes44) ctx_v2w (\<lambda>_. job0) 44 =
     Some (32, ctx0\<lparr>hdr := hdr0\<lparr>submit_version := 2\<rparr>, nvmap := Some 1\<rparr>,
           (\<lambda>_. job0)(0 := job_shifted))"
  by (simp add: nvhost_channelctl_SUBMIT_EXT_def set_submit_def nvhost_channelwrite_def
      write_loop.simps write_step_def write_hdr_def write_cmdbuf_def nvhost_job_add_gather_def
      write_reloc_def write_waitchks_def write_relocshift_def store_records_def min_t_int_def
      copy_from_user_def expected_kind_def NVHOST_SUBMIT_VERSION_V2_def
      env0_def ctx0_def ctx_v2w_def ctx_wk_def ctx_rs_def hdr0_def hdr_v2w_def
      job0_def job_rs_def job_shifted_def bytes44_def bytes28_def bytes16_def fun_upd_idem_iff)

theorem waitchk_bytes_taken_as_reloc_shift_witness:
  "map_option fst (nvhost_channelwrite env0 (map Some bytes44) ctx_v2w (\<lambda>_. job0) 44) = Some 32"
  using waitchk_bytes_taken_as_reloc_shift by simp

subsection \<open>Partial records\<close>

text \<open>
  C5. A write that finds fewer bytes than one record of the expected kind is to return
  the bytes consumed so far, without error. A channel can be without a job: when the
  allocator fails in \<^verbatim>\<open>SUBMIT_EXT\<close>, \<^verbatim>\<open>set_submit\<close> stores the NULL pointer. On such a
  channel every write returns \<^verbatim>\<open>-EIO\<close> before the loop is entered, also one of three
  bytes while a command buffer of twelve is expected.
\<close>

theorem write_without_job_counterexample:
  "nvhost_channelctl_SUBMIT_EXT env_nomem (ctx0\<lparr>nvmap := Some 1\<rparr>) (\<lambda>_. job0)
      (hdr0\<lparr>num_cmdbufs := 1\<rparr>) = (- ENOMEM, ctx_nojob, (\<lambda>_. job0)) \<and>
   (3::size_t) < record_size env_nomem (expected_kind ctx_nojob) \<and>
   nvhost_channelwrite env_nomem (map Some [1, 2, 3]) ctx_nojob (\<lambda>_. job0) 3 =
     Some (- EIO, ctx_nojob, (\<lambda>_. job0)) \<and>
   - EIO < 0"
  by (simp add: nvhost_channelctl_SUBMIT_EXT_def set_submit_def nvhost_channelwrite_def
      record_size_def expected_kind_def env_nomem_def env0_def ctx_nojob_def ctx0_def hdr0_def
      EIO_def)

text \<open>
  C5, amended. On a channel that has a job and fewer than \<open>2 ^ 31\<close> wait checks
  remaining, for a byte count whose quotient by the size of a wait check is below
  \<open>2 ^ 31\<close>: in every state the loop of the write call comes to, the bytes consumed and
  the bytes remaining add up to the byte count; an iteration that goes on from there
  consumes exactly one record of the expected kind, or a whole positive number of wait
  checks, and never more than the bytes remaining; and when fewer bytes remain than one
  record of the expected kind takes, the iteration leaves the loop with nothing consumed
  and no error, and the call returns the bytes consumed by the iterations before, with
  the state those iterations left. (With \<open>2 ^ 31\<close> wait checks or more the batch can
  exceed the bytes remaining: \<open>waitchk_batch_overruns_buffer\<close>.)
\<close>

theorem write_stalls_on_partial_record:
  assumes "job priv = Some a"
    and "unat (num_waitchks (hdr priv)) < 2 ^ 31"
    and "unat count div unat (sizeof_waitchk e) < 2 ^ 31"
    and "write_iter n e um a priv h 0 count = Some (priv', h', buf', remaining')"
  shows "unat buf' + unat remaining' = unat count \<and>
         (\<forall>p'' h'' c. write_step e um a priv' h' buf' remaining' = Next p'' h'' c \<longrightarrow>
            unat c \<le> unat remaining' \<and>
            (if expected_kind priv' = WAITCHK
             then unat c =
                    min (unat remaining' div unat (sizeof_waitchk e))
                        (unat (num_waitchks (hdr priv'))) * unat (sizeof_waitchk e) \<and>
                  0 < unat c
             else c = record_size e (expected_kind priv'))) \<and>
         (remaining' < record_size e (expected_kind priv') \<longrightarrow>
            write_step e um a priv' h' buf' remaining' = Break 0 priv' h' \<and>
            nvhost_channelwrite e um priv h count = Some (sint buf', priv', h'))"
proof -
  have s0: "unat (0::size_t) + unat count < 2 ^ 32"
    using unsigned_less [of count, where 'a = nat] by simp
  from write_iter_in_range [OF assms(4,2,3) s0]
  have sum: "unat buf' + unat remaining' = unat count"
    and rle: "unat remaining' \<le> unat count"
    and w': "unat (num_waitchks (hdr priv')) < 2 ^ 31"
    by simp_all
  have "unat remaining' div unat (sizeof_waitchk e) \<le> unat count div unat (sizeof_waitchk e)"
    using rle by (rule div_le_mono)
  then have r': "unat remaining' div unat (sizeof_waitchk e) < 2 ^ 31"
    using assms(3) by simp
  have "of_nat (unat buf' + unat remaining') = (of_nat (unat count) :: size_t)"
    using sum by simp
  then have "buf' + remaining' = count"
    by simp
  then have diff: "count - remaining' = buf'"
    by auto
  have steps: "\<forall>p'' h'' c. write_step e um a priv' h' buf' remaining' = Next p'' h'' c \<longrightarrow>
            unat c \<le> unat remaining' \<and>
            (if expected_kind priv' = WAITCHK
             then unat c =
                    min (unat remaining' div unat (sizeof_waitchk e))
                        (unat (num_waitchks (hdr priv'))) * unat (sizeof_waitchk e) \<and>
                  0 < unat c
             else c = record_size e (expected_kind priv'))"
    using write_step_in_range [OF w' r'] by blast
  have stall: "write_step e um a priv' h' buf' remaining' = Break 0 priv' h' \<and>
      nvhost_channelwrite e um priv h count = Some (sint buf', priv', h')"
    if lt: "remaining' < record_size e (expected_kind priv')"
  proof -
    have st: "write_step e um a priv' h' buf' remaining' = Break 0 priv' h'"
      using lt by (rule write_step_stall)
    have "write_loop e um a priv' h' buf' remaining' = Some (0, priv', h', remaining')"
      using st by (subst write_loop.simps) simp
    with write_loop_iter [OF assms(4)]
    have "write_loop e um a priv h 0 count = Some (0, priv', h', remaining')" by simp
    with assms(1) st diff show ?thesis by (simp add: nvhost_channelwrite_def)
  qed
  from sum steps stall show ?thesis by blast
qed

theorem write_stalls_on_partial_record_witness:
  "nvhost_channelwrite env0 (map Some bytes16) ctx_c1r1 (\<lambda>_. job0) 16 =
     Some (12, ctx_c1r1\<lparr>hdr := hdr0\<lparr>num_relocs := 1\<rparr>\<rparr>, (\<lambda>_. job0)(0 := job_g1))"
proof -
  have j: "job ctx_c1r1 = Some 0"
    by (simp add: ctx_c1r1_def ctx0_def)
  have w: "unat (num_waitchks (hdr ctx_c1r1)) < 2 ^ 31"
    by (simp add: ctx_c1r1_def hdr0_def)
  have r: "unat (16::size_t) div unat (sizeof_waitchk env0) < 2 ^ 31"
    by (simp add: env0_def)
  have it: "write_iter (Suc 0) env0 (map Some bytes16) 0 ctx_c1r1 (\<lambda>_. job0) 0 16 =
      Some (ctx_c1r1\<lparr>hdr := hdr0\<lparr>num_relocs := 1\<rparr>\<rparr>, (\<lambda>_. job0)(0 := job_g1), 12, 4)"
    by (simp add: write_step_def write_cmdbuf_def nvhost_job_add_gather_def copy_from_user_def
        env0_def ctx_c1r1_def ctx0_def hdr0_def bytes16_def job0_def job_g1_def)
  have lt: "(4::size_t) < record_size env0 (expected_kind (ctx_c1r1\<lparr>hdr := hdr0\<lparr>num_relocs := 1\<rparr>\<rparr>))"
    by (simp add: record_size_def expected_kind_def hdr0_def env0_def)
  show ?thesis
    using write_stalls_on_partial_record [OF j w r it, THEN conjunct2, THEN conjunct2, THEN mp, OF lt]
    by simp
qed

subsection \<open>Batches of wait checks\<close>

text \<open>
  C6. In the waitchk phase a batch of \<open>min (b div size) w\<close> whole records is to be
  consumed, for \<open>w\<close> records remaining and \<open>b\<close> bytes supplied. The loop takes the
  minimum with \<^verbatim>\<open>min_t(int, ...)\<close>: for \<open>w\<close> below \<open>2 ^ 31\<close> the batch is as stated
  (\<open>write_waitchks_batch\<close>), but a larger \<open>w\<close> is read as a negative \<^verbatim>\<open>int\<close> and wins
  the comparison. Here a header declaring one command buffer and \<open>0xFFFFFFFF\<close> wait
  checks is accepted and 28 readable bytes are written, a command buffer and one whole
  wait check: the iteration for the wait check has 16 bytes and a whole record in front
  of it, takes \<open>-1\<close> for the batch, asks \<^verbatim>\<open>copy_from_user\<close> for \<open>0xFFFFFFF0\<close> bytes and
  fails, and the call returns \<^verbatim>\<open>-EFAULT\<close> with the submission abandoned.
\<close>

theorem waitchk_count_read_as_int:
  "nvhost_channelctl_SET_NVMAP_FD env0 ctx0 3 = (0, ctx0\<lparr>nvmap := Some 1\<rparr>) \<and>
   nvhost_channelctl_SUBMIT_EXT env0 (ctx0\<lparr>nvmap := Some 1\<rparr>) (\<lambda>_. job0) hdr_w =
     (0, ctx_w, (\<lambda>_. job0)) \<and>
   write_iter (Suc 0) env0 (map Some bytes28) 0 ctx_w (\<lambda>_. job0) 0 28 =
     Some (ctx_w\<lparr>hdr := hdr0\<lparr>num_waitchks := 0xFFFFFFFF\<rparr>\<rparr>,
           (\<lambda>_. job0)(0 := job0\<lparr>gathers := [[9, 0, 0, 0, 8, 0, 0, 0, 7, 0, 0, 0]]\<rparr>), 12, 16) \<and>
   expected_kind (ctx_w\<lparr>hdr := hdr0\<lparr>num_waitchks := 0xFFFFFFFF\<rparr>\<rparr>) = WAITCHK \<and>
   copy_from_user (map Some bytes28) 12 (sizeof_waitchk env0) = Some bytes16 \<and>
   min_t_int (16 div sizeof_waitchk env0) 0xFFFFFFFF = 0xFFFFFFFF \<and>
   write_step env0 (map Some bytes28) 0 (ctx_w\<lparr>hdr := hdr0\<lparr>num_waitchks := 0xFFFFFFFF\<rparr>\<rparr>)
       ((\<lambda>_. job0)(0 := job0\<lparr>gathers := [[9, 0, 0, 0, 8, 0, 0, 0, 7, 0, 0, 0]]\<rparr>)) 12 16 =
     Break (- EFAULT) (ctx_w\<lparr>hdr := hdr0\<lparr>num_waitchks := 0xFFFFFFFF\<rparr>\<rparr>)
       ((\<lambda>_. job0)(0 := job0\<lparr>gathers := [[9, 0, 0, 0, 8, 0, 0, 0, 7, 0, 0, 0]]\<rparr>)) \<and>
   nvhost_channelwrite env0 (map Some bytes28) ctx_w (\<lambda>_. job0) 28 =
     Some (- EFAULT, ctx_w\<lparr>hdr := hdr0\<rparr>,
           (\<lambda>_. job0)(0 := job0\<lparr>gathers := [[9, 0, 0, 0, 8, 0, 0, 0, 7, 0, 0, 0]]\<rparr>))"
  by (simp add: nvhost_channelctl_SET_NVMAP_FD_def nvhost_channelctl_SUBMIT_EXT_def
      set_submit_def nvhost_channelwrite_def write_loop.simps write_step_def write_cmdbuf_def
      nvhost_job_add_gather_def write_waitchks_def min_t_int_def copy_from_user_def
      expected_kind_def reset_submit_def env0_def ctx_w_def ctx0_def hdr0_def hdr_w_def
      bytes28_def bytes16_def job0_def EFAULT_def fun_upd_idem_iff)

theorem waitchk_count_read_as_int_witness:
  "map_option fst (nvhost_channelwrite env0 (map Some bytes28) ctx_w (\<lambda>_. job0) 28) =
     Some (- EFAULT)"
  using waitchk_count_read_as_int by simp

subsection \<open>Copy faults\<close>

text \<open>
  C7. When \<^verbatim>\<open>copy_from_user\<close> fails in some iteration of a write call, the call returns
  \<^verbatim>\<open>-EFAULT\<close> and all four remaining counters are zero afterwards.
\<close>

theorem write_copy_fault_resets:
  assumes "job priv = Some a"
    and "write_iter n e um a priv h 0 count = Some (priv', h', buf', remaining')"
    and "remaining' \<noteq> 0"
    and "copy_faults e um priv' buf' remaining'"
  shows "nvhost_channelwrite e um priv h count = Some (- EFAULT, reset_submit priv', h') \<and>
         num_cmdbufs (hdr (reset_submit priv')) = 0 \<and>
         num_relocs (hdr (reset_submit priv')) = 0 \<and>
         num_waitchks (hdr (reset_submit priv')) = 0 \<and>
         num_relocshifts (reset_submit priv') = 0"
proof -
  have st: "write_step e um a priv' h' buf' remaining' = Break (- EFAULT) priv' h'"
    using assms(4) by (rule write_step_fault)
  have "write_loop e um a priv' h' buf' remaining' = Some (- EFAULT, priv', h', remaining')"
    using st assms(3) by (subst write_loop.simps) simp
  with write_loop_iter [OF assms(2)]
  have "write_loop e um a priv h 0 count = Some (- EFAULT, priv', h', remaining')" by simp
  with assms(1) show ?thesis
    by (simp add: nvhost_channelwrite_def reset_submit_def EFAULT_def)
qed

theorem write_copy_fault_resets_witness:
  "nvhost_channelwrite env0 (map Some bytes16 @ [None]) ctx_c1r1 (\<lambda>_. job0) 28 =
     Some (- EFAULT, ctx_c1r1\<lparr>hdr := hdr0\<rparr>, (\<lambda>_. job0)(0 := job_g1))"
proof -
  have j: "job ctx_c1r1 = Some 0"
    by (simp add: ctx_c1r1_def ctx0_def)
  have it: "write_iter (Suc 0) env0 (map Some bytes16 @ [None]) 0 ctx_c1r1 (\<lambda>_. job0) 0 28 =
      Some (ctx_c1r1\<lparr>hdr := hdr0\<lparr>num_relocs := 1\<rparr>\<rparr>, (\<lambda>_. job0)(0 := job_g1), 12, 16)"
    by (simp add: write_step_def write_cmdbuf_def nvhost_job_add_gather_def copy_from_user_def
        env0_def ctx_c1r1_def ctx0_def hdr0_def bytes16_def job0_def job_g1_def)
  have nz: "(16::size_t) \<noteq> 0" by simp
  have f: "copy_faults env0 (map Some bytes16 @ [None])
      (ctx_c1r1\<lparr>hdr := hdr0\<lparr>num_relocs := 1\<rparr>\<rparr>) 12 16"
    by (simp add: copy_faults_def expected_kind_def record_size_def copy_from_user_def env0_def
        hdr0_def bytes16_def)
  show ?thesis
    using write_copy_fault_resets [OF j it nz f]
    by (simp add: reset_submit_def hdr0_def ctx_c1r1_def ctx0_def)
qed

subsection \<open>Relocation shifts\<close>

text \<open>
  C8. A header accepted by \<^verbatim>\<open>SUBMIT_EXT\<close> is stored, and the reloc-shift counter becomes
  its \<^verbatim>\<open>num_relocs\<close> when its version is at least 2 and stays zero otherwise; a header
  accepted by the write loop has version 0 and leaves the counter zero. An iteration that
  consumes a reloc-shift record stores it in the \<^verbatim>\<open>reloc_shift\<close> field of the pin at index
  \<^verbatim>\<open>job->num_pins - priv->num_relocshifts\<close> and decrements the counter; the index is
  computed in \<^verbatim>\<open>int\<close>, and is the difference of the two numbers whenever the counter is
  between 0 and the pin count.
\<close>

theorem reloc_shift_counter_and_index:
  "(nvhost_channelctl_SUBMIT_EXT e priv h arg = (0, priv', h') \<longrightarrow>
      hdr priv' = arg \<and>
      num_relocshifts priv' =
        (if NVHOST_SUBMIT_VERSION_V2 \<le> submit_version arg then num_relocs arg else 0)) \<and>
   (expected_kind priv = SUBMIT_HDR \<and>
    write_step e um a priv h buf remaining = Next priv' h' consumed \<longrightarrow>
      submit_version (hdr priv') = NVHOST_SUBMIT_VERSION_V0 \<and> num_relocshifts priv' = 0) \<and>
   (expected_kind priv = RELOC_SHIFT \<and> \<not> remaining < sizeof_reloc_shift e \<and>
    copy_from_user um buf (sizeof_reloc_shift e) = Some bs \<longrightarrow>
      write_step e um a priv h buf remaining =
        Next (priv\<lparr>num_relocshifts := num_relocshifts priv - 1\<rparr>)
             (h(a := (h a)\<lparr>pinarray := (pinarray (h a))
                  (sint (num_pins (h a) - num_relocshifts priv) :=
                     (pinarray (h a) (sint (num_pins (h a) - num_relocshifts priv)))
                       \<lparr>reloc_shift := bs\<rparr>)\<rparr>))
             (sizeof_reloc_shift e)) \<and>
   (0 \<le> sint (num_relocshifts priv) \<and> sint (num_relocshifts priv) \<le> sint (num_pins (h a)) \<longrightarrow>
      sint (num_pins (h a) - num_relocshifts priv) =
        sint (num_pins (h a)) - sint (num_relocshifts priv))"
  using submit_ext_accepted [of e priv h arg priv' h']
    write_hdr_accepted [of priv e um a h buf remaining priv' h' consumed]
    write_relocshift_effect [of priv remaining e um buf bs a h]
    sint_diff_in_range [of "num_relocshifts priv" "num_pins (h a)"]
  by blast

theorem reloc_shift_counter_and_index_witness:
  "fst (nvhost_channelctl_SUBMIT_EXT env0 (ctx0\<lparr>nvmap := Some 1\<rparr>) (\<lambda>_. job0) hdr_v2) = 0 \<and>
   num_relocshifts
     (fst (snd (nvhost_channelctl_SUBMIT_EXT env0 (ctx0\<lparr>nvmap := Some 1\<rparr>) (\<lambda>_. job0) hdr_v2))) = 1 \<and>
   write_step env0 (map Some [5, 0, 0, 0]) 0 (ctx0\<lparr>num_relocshifts := 1\<rparr>)
      (\<lambda>_. job0\<lparr>num_pins := 1\<rparr>) 0 4 =
     Next ctx0
       ((\<lambda>_. job0\<lparr>num_pins := 1\<rparr>)
          (0 := job0\<lparr>num_pins := 1,
                      pinarray := (pinarray job0)(0 := \<lparr>reloc = [], reloc_shift = [5, 0, 0, 0]\<rparr>)\<rparr>))
       4"
proof -
  obtain p1 h1 where
    acc: "nvhost_channelctl_SUBMIT_EXT env0 (ctx0\<lparr>nvmap := Some 1\<rparr>) (\<lambda>_. job0) hdr_v2 = (0, p1, h1)"
    by (simp add: nvhost_channelctl_SUBMIT_EXT_def set_submit_def env0_def ctx0_def hdr0_def
        hdr_v2_def)
  have "num_relocshifts p1 =
      (if NVHOST_SUBMIT_VERSION_V2 \<le> submit_version hdr_v2 then num_relocs hdr_v2 else 0)"
    using reloc_shift_counter_and_index [THEN conjunct1, THEN mp, OF acc] by simp
  then have one: "num_relocshifts p1 = 1"
    by (simp add: NVHOST_SUBMIT_VERSION_V2_def hdr_v2_def hdr0_def)
  have k: "expected_kind (ctx0\<lparr>num_relocshifts := 1\<rparr>) = RELOC_SHIFT \<and>
      \<not> (4::size_t) < sizeof_reloc_shift env0 \<and>
      copy_from_user (map Some [5, 0, 0, 0]) 0 (sizeof_reloc_shift env0) = Some [5, 0, 0, 0]"
    by (simp add: expected_kind_def ctx0_def hdr0_def env0_def copy_from_user_def)
  have "write_step env0 (map Some [5, 0, 0, 0]) 0 (ctx0\<lparr>num_relocshifts := 1\<rparr>)
      (\<lambda>_. job0\<lparr>num_pins := 1\<rparr>) 0 4 =
     Next ctx0
       ((\<lambda>_. job0\<lparr>num_pins := 1\<rparr>)
          (0 := job0\<lparr>num_pins := 1,
                      pinarray := (pinarray job0)(0 := \<lparr>reloc = [], reloc_shift = [5, 0, 0, 0]\<rparr>)\<rparr>))
       4"
    using reloc_shift_counter_and_index
      [THEN conjunct2, THEN conjunct2, THEN conjunct1, THEN mp, OF k, of 0 "\<lambda>_. job0\<lparr>num_pins := 1\<rparr>"]
    by (simp add: ctx0_def env0_def job0_def)
  with acc one show ?thesis by simp
qed

subsection \<open>What a header needs to be accepted\<close>

lemma set_submit_rejects:
  assumes "num_cmdbufs (hdr ctx) = 0 \<or> nvmap ctx = None"
  shows "set_submit e ctx h =
           ((if num_cmdbufs (hdr ctx) = 0 then - EIO else - EFAULT), ctx, h)"
  using assms by (auto simp: set_submit_def)

lemma write_hdr_rejected:
  assumes "job priv = Some a" and "expected_kind priv = SUBMIT_HDR"
    and "\<not> count < sizeof_submit_hdr e"
    and "copy_from_user um 0 (sizeof_submit_hdr e) = Some bs"
    and "decode_submit_hdr e bs = (sid, sincrs, ncmd, nrel)"
    and "ncmd = 0 \<or> nvmap priv = None"
    and "count \<noteq> 0"
  shows "\<exists>priv'. nvhost_channelwrite e um priv h count =
           Some ((if ncmd = 0 then - EIO else - EFAULT), priv', h) \<and>
         expected_kind priv' = SUBMIT_HDR \<and> job priv' = job priv"
proof -
  let ?p = "priv\<lparr>hdr := (hdr priv)\<lparr>syncpt_id := sid, syncpt_incrs := sincrs,
                    num_cmdbufs := ncmd, num_relocs := nrel,
                    submit_version := NVHOST_SUBMIT_VERSION_V0\<rparr>\<rparr>"
  have "set_submit e ?p h = ((if ncmd = 0 then - EIO else - EFAULT), ?p, h)"
    using assms(6) set_submit_rejects [of ?p e h] by simp
  then have "write_step e um a priv h 0 count =
      Break (if ncmd = 0 then - EIO else - EFAULT) ?p h"
    using assms(2-5)
    by (simp add: write_step_expected_kind write_hdr_def Let_def EIO_def EFAULT_def)
  then have "write_loop e um a priv h 0 count =
      Some ((if ncmd = 0 then - EIO else - EFAULT), ?p, h, count)"
    using assms(7) by (subst write_loop.simps) simp
  then show ?thesis
    using assms(1)
    by (simp add: nvhost_channelwrite_def EIO_def EFAULT_def reset_submit_def
        expected_kind_def)
qed

text \<open>
  C10. A header that declares no command buffer, or that comes before an nvmap client has
  been set, is to be refused with an error and without starting a submission. Both
  paths return the error of \<^verbatim>\<open>set_submit\<close> (\<open>set_submit_rejects\<close>), and the write path
  resets the counters after it (\<open>write_hdr_rejected\<close>). \<^verbatim>\<open>SUBMIT_EXT\<close> does not: it has
  already copied the header over the stored one, and the counters of the refused header
  stay. Without an nvmap client, a header declaring one command buffer is answered with
  \<^verbatim>\<open>-EFAULT\<close>, yet the channel now expects a command buffer and the next write consumes
  one into the old job; with a client, a header declaring no command buffer and one
  relocation is answered with \<^verbatim>\<open>-EIO\<close> and leaves the channel expecting a relocation.
\<close>

theorem submit_ext_error_keeps_header:
  "nvmap ctx0 = None \<and>
   nvhost_channelctl_SUBMIT_EXT env0 ctx0 (\<lambda>_. job0) (hdr0\<lparr>num_cmdbufs := 1\<rparr>) =
     (- EFAULT, ctx_nonvmap, (\<lambda>_. job0)) \<and>
   expected_kind ctx_nonvmap = CMDBUF \<and>
   nvhost_channelwrite env0 (map Some bytes16) ctx_nonvmap (\<lambda>_. job0) 12 =
     Some (12, ctx0, (\<lambda>_. job0)(0 := job_g1)) \<and>
   nvhost_channelctl_SUBMIT_EXT env0 (ctx0\<lparr>nvmap := Some 1\<rparr>) (\<lambda>_. job0) (hdr0\<lparr>num_relocs := 1\<rparr>) =
     (- EIO, ctx0\<lparr>nvmap := Some 1, hdr := hdr0\<lparr>num_relocs := 1\<rparr>\<rparr>, (\<lambda>_. job0)) \<and>
   expected_kind (ctx0\<lparr>nvmap := Some 1, hdr := hdr0\<lparr>num_relocs := 1\<rparr>\<rparr>) = RELOC"
  by (simp add: nvhost_channelctl_SUBMIT_EXT_def set_submit_def nvhost_channelwrite_def
      write_loop.simps write_step_def write_cmdbuf_def nvhost_job_add_gather_def
      copy_from_user_def expected_kind_def env0_def ctx_nonvmap_def ctx0_def hdr0_def
      bytes16_def job0_def job_g1_def fun_upd_idem_iff)

theorem submit_ext_error_keeps_header_witness:
  "fst (nvhost_channelctl_SUBMIT_EXT env0 ctx0 (\<lambda>_. job0) (hdr0\<lparr>num_cmdbufs := 1\<rparr>)) = - EFAULT \<and>
   map_option fst (nvhost_channelwrite env0 (map Some bytes16) ctx_nonvmap (\<lambda>_. job0) 12) =
     Some 12"
  using submit_ext_error_keeps_header by simp

section \<open>Flush, pin and submit\<close>

text \<open>
  C9. A flush that passes the guard and whose pin succeeds calls the device-submission
  collaborator on the pinned job. It returns the collaborator's result \<open>err\<close>; when that
  is nonzero the job is unpinned (the last collaborator call is the unpin, and the job
  left in memory is the unpinned one); when it is zero no unpin happens. \<^verbatim>\<open>args->value\<close>
  is the \<^verbatim>\<open>syncpt_end\<close> of the job as the collaborator left it.
\<close>

theorem flush_submit_outcome:
  assumes "job ctx = Some a"
    and "num_relocs (hdr ctx) = 0" and "num_cmdbufs (hdr ctx) = 0"
    and "num_waitchks (hdr ctx) = 0"
    and "nvhost_job_pin e (h a) = (0, j1)"
    and "nvhost_channel_submit e
           (j1\<lparr>null_kickoff := (if nvhost_debug_null_kickoff_pid e = current_tgid e then 1
                                 else nk)\<rparr>) = (err, j3)"
  shows "nvhost_ioctl_channel_flush e ctx h v nk =
     (err, syncpt_end j3,
      (if nvhost_debug_force_timeout_pid e = current_tgid e \<and>
          nvhost_debug_force_timeout_channel e = chid e
       then ctx\<lparr>timeout := nvhost_debug_force_timeout_val e\<rparr> else ctx),
      h(a := (if err \<noteq> 0 then nvhost_job_unpin e j3 else j3)),
      (if err \<noteq> 0 then [JOB_PIN, CHANNEL_SUBMIT, JOB_UNPIN] else [JOB_PIN, CHANNEL_SUBMIT]))"
  using assms by (simp add: nvhost_ioctl_channel_flush_def Let_def)

theorem flush_submit_outcome_witness:
  "nvhost_ioctl_channel_flush env0 ctx0 (\<lambda>_. job0) 0 0 =
     (0, 7, ctx0, (\<lambda>_. job0)(0 := job0\<lparr>syncpt_end := 7\<rparr>), [JOB_PIN, CHANNEL_SUBMIT]) \<and>
   nvhost_ioctl_channel_flush env_fail ctx0 (\<lambda>_. job0\<lparr>gathers := [[1]]\<rparr>) 0 0 =
     (- 16, 0, ctx0, (\<lambda>_. job0\<lparr>gathers := [[1]]\<rparr>)(0 := job0),
      [JOB_PIN, CHANNEL_SUBMIT, JOB_UNPIN])"
proof -
  have a: "job ctx0 = Some 0" "num_relocs (hdr ctx0) = 0" "num_cmdbufs (hdr ctx0) = 0"
    "num_waitchks (hdr ctx0) = 0"
    by (simp_all add: ctx0_def hdr0_def)
  have p: "nvhost_job_pin env0 ((\<lambda>_. job0) (0::nat)) = (0, job0)"
    by (simp add: env0_def)
  have s: "nvhost_channel_submit env0
      (job0\<lparr>null_kickoff :=
          (if nvhost_debug_null_kickoff_pid env0 = current_tgid env0 then 1 else 0)\<rparr>) =
      (0, job0\<lparr>syncpt_end := 7\<rparr>)"
    by (simp add: env0_def job0_def)
  have p': "nvhost_job_pin env_fail ((\<lambda>_. job0\<lparr>gathers := [[1]]\<rparr>) (0::nat)) =
      (0, job0\<lparr>gathers := [[1]]\<rparr>)"
    by (simp add: env0_def env_fail_def)
  have s': "nvhost_channel_submit env_fail
      (job0\<lparr>gathers := [[1]], null_kickoff :=
          (if nvhost_debug_null_kickoff_pid env_fail = current_tgid env_fail then 1 else 0)\<rparr>) =
      (- 16, job0\<lparr>gathers := [[1]]\<rparr>)"
    by (simp add: env0_def env_fail_def job0_def)
  show ?thesis
    using flush_submit_outcome [OF a p s, of 0] flush_submit_outcome [OF a p' s', of 0]
    by (simp add: env0_def env_fail_def job0_def)
qed

end
